theory Spec2Isabelle
  imports Complex_Main
begin

section \<open>Shared data model\<close>

text \<open>
  The exceptions of the Python program that the claims depend on. \<open>NetworkError\<close> is
  the class declared in \<open>okx_client.py\<close>; \<open>HTTPError\<close> stands for the exceptions of
  the \<open>httpx\<close> library (transport faults, timeouts, \<open>raise_for_status\<close>); the others
  are the built-in exceptions raised by the statements named next to them below.
  Python ints are modelled as \<open>int\<close>, Python strings as ASCII \<open>string\<close>s, and a
  Python float as the \<open>real\<close> number it denotes (infinities and NaN are not
  represented, so the \<open>OverflowError\<close> of \<open>int(inf)\<close> is outside the model).
  In the size planner every float operation returns the rounded exact result: the
  rounding of the float format is the parameter \<open>rnd\<close> of \<open>plan_size_from_notional\<close>
  and of its callers. The trigger prices of \<open>place_order\<close> are computed exactly and
  then rounded to the six decimals of their string.
  The built-in \<open>float(s)\<close> on a string is a parameter \<open>py_float\<close> of the functions
  that call it: \<open>None\<close> is its \<open>ValueError\<close>.
\<close>

datatype error =
    NetworkError
  | ZeroDivisionError
  | ValueError
  | IndexError
  | KeyError
  | HTTPError

subsection \<open>String operations\<close>

text \<open>\<open>str.lower()\<close> on ASCII text.\<close>

definition lower_char :: "char \<Rightarrow> char" where
  "lower_char c =
     (case map_of (zip ''ABCDEFGHIJKLMNOPQRSTUVWXYZ'' ''abcdefghijklmnopqrstuvwxyz'') c of
        None \<Rightarrow> c
      | Some l \<Rightarrow> l)"

definition lower :: "string \<Rightarrow> string" where
  "lower s = map lower_char s"

fun starts_with :: "string \<Rightarrow> string \<Rightarrow> bool" where
  "starts_with [] s = True"
| "starts_with (p # ps) [] = False"
| "starts_with (p # ps) (c # cs) = (p = c \<and> starts_with ps cs)"

text \<open>\<open>contains sub s\<close> is Python's \<open>sub in s\<close>.\<close>

fun contains :: "string \<Rightarrow> string \<Rightarrow> bool" where
  "contains sub [] = (sub = [])"
| "contains sub (c # cs) = (starts_with sub (c # cs) \<or> contains sub cs)"

definition is_digit :: "char \<Rightarrow> bool" where
  "is_digit c = (let n = (of_char c :: nat) in 48 \<le> n \<and> n \<le> 57)"

definition digit_val :: "char \<Rightarrow> int" where
  "digit_val c = int (of_char c) - 48"

text \<open>\<open>str(n)\<close> for an int.\<close>

fun nat_digits :: "nat \<Rightarrow> string" where
  "nat_digits n =
     (if n < 10 then [''0123456789'' ! n]
      else nat_digits (n div 10) @ [''0123456789'' ! (n mod 10)])"

definition py_str :: "int \<Rightarrow> string" where
  "py_str i = (if i < 0 then CHR ''-'' # nat_digits (nat (- i)) else nat_digits (nat i))"

text \<open>Python's \<open>int(x)\<close> on a float truncates toward zero.\<close>

definition py_int :: "real \<Rightarrow> int" where
  "py_int x = (if 0 \<le> x then \<lfloor>x\<rfloor> else \<lceil>x\<rceil>)"

text \<open>
  The value read back by \<open>float\<close> from the string \<open>f"{x:.6f}"\<close>: \<open>x\<close> rounded to six
  decimals, ties to even.
\<close>

definition round_half_even :: "real \<Rightarrow> int" where
  "round_half_even y =
     (let f = \<lfloor>y\<rfloor>; d = y - real_of_int f
      in if d < 1 / 2 then f else if 1 / 2 < d then f + 1 else if even f then f else f + 1)"

definition fmt6 :: "real \<Rightarrow> real" where
  "fmt6 x = real_of_int (round_half_even (x * 1000000)) / 1000000"

subsection \<open>Orders, replies and the exchange\<close>

text \<open>
  The dictionary \<open>attach_algo\<close> of \<open>place_order\<close>; a key that is absent is \<open>None\<close>.
  Trigger prices are kept as the number their six-decimal string denotes.
\<close>

record attach_algo =
  tpTriggerPx :: "real option"
  tpTriggerPxType :: "string option"
  tpOrdPx :: "string option"
  slTriggerPx :: "real option"
  slTriggerPxType :: "string option"
  slOrdPx :: "string option"

text \<open>The dictionary \<open>params\<close> passed to the SDK's \<open>trade.place_order\<close>.\<close>

record order_params =
  p_instId :: string
  p_tdMode :: string
  p_side :: string
  p_ordType :: string
  p_sz :: string
  p_posSide :: "string option"
  p_attachAlgoOrds :: "attach_algo option"

text \<open>
  A reply of the SDK: a dictionary with \<open>code\<close> and a \<open>data\<close> list of dictionaries
  (\<open>sCode\<close>, \<open>sMsg\<close>, \<open>ordId\<close>; an absent or \<open>None\<close> entry is the empty string), or
  something that is not a dictionary.
\<close>

datatype item = Item (sCode: string) (sMsg: string) (ordId: string)

datatype response = Reply (code: string) (data: "item list") | NotADict

record position =
  pos_instId :: string
  pos :: "string option"

type_synonym candle = "string list"

text \<open>What the program does to the outside world, in order.\<close>

datatype event =
    Submit order_params
  | Sleep int
  | SetLeverage string int string string
  | OpenPosition string
  | LedgerRow string

text \<open>
  The exchange behind \<open>OkxClient\<close>. Every SDK call is answered by an oracle indexed by
  the number of calls made so far (\<open>clock\<close>), so successive calls may be answered
  differently. \<open>None\<close> stands for a call that raised (in the request or while its
  answer was read).
\<close>

record exchange =
  ex_last_price :: "nat \<Rightarrow> string \<Rightarrow> real option"
  ex_place_order :: "nat \<Rightarrow> order_params \<Rightarrow> response option"
  ex_positions :: "nat \<Rightarrow> position list option"
  ex_candles :: "nat \<Rightarrow> string \<Rightarrow> candle list option"
  ex_balance :: "nat \<Rightarrow> real option"
  ex_position_mode :: "nat \<Rightarrow> string option"

text \<open>
  The mutable state: the call counter, \<open>OkxClient._cap_cache\<close> and the trace of
  events.
\<close>

record world =
  clock :: nat
  cap_cache :: "(string \<times> int) \<rightharpoonup> int"
  trace :: "event list"

definition tick :: "world \<Rightarrow> world" where
  "tick w = w\<lparr>clock := Suc (clock w)\<rparr>"

definition emit :: "event \<Rightarrow> world \<Rightarrow> world" where
  "emit e w = w\<lparr>trace := trace w @ [e]\<rparr>"

text \<open>\<open>time.sleep\<close>.\<close>

definition sleep :: "int \<Rightarrow> world \<Rightarrow> world" where
  "sleep n w = emit (Sleep n) w"

section \<open>The exchange client (okx\_client.py)\<close>

text \<open>
  \<open>get_last_price\<close>, \<open>get_positions\<close>, \<open>get_candles\<close>, \<open>get_usdt_balance\<close>: any
  exception becomes \<open>NetworkError\<close>.
\<close>

definition get_last_price :: "exchange \<Rightarrow> world \<Rightarrow> string \<Rightarrow> (error + real) \<times> world" where
  "get_last_price okx w inst_id =
     (case ex_last_price okx (clock w) inst_id of
        None \<Rightarrow> (Inl NetworkError, tick w)
      | Some p \<Rightarrow> (Inr p, tick w))"

definition get_positions :: "exchange \<Rightarrow> world \<Rightarrow> (error + position list) \<times> world" where
  "get_positions okx w =
     (case ex_positions okx (clock w) of
        None \<Rightarrow> (Inl NetworkError, tick w)
      | Some ps \<Rightarrow> (Inr ps, tick w))"

definition get_candles :: "exchange \<Rightarrow> world \<Rightarrow> string \<Rightarrow> (error + candle list) \<times> world" where
  "get_candles okx w inst_id =
     (case ex_candles okx (clock w) inst_id of
        None \<Rightarrow> (Inl NetworkError, tick w)
      | Some cs \<Rightarrow> (Inr cs, tick w))"

definition get_usdt_balance :: "exchange \<Rightarrow> world \<Rightarrow> (error + real) \<times> world" where
  "get_usdt_balance okx w =
     (case ex_balance okx (clock w) of
        None \<Rightarrow> (Inl NetworkError, tick w)
      | Some b \<Rightarrow> (Inr b, tick w))"

text \<open>\<open>get_position_mode\<close>: never raises, \<open>net\<close> unless the account says otherwise.\<close>

definition get_position_mode :: "exchange \<Rightarrow> world \<Rightarrow> string \<times> world" where
  "get_position_mode okx w =
     (case ex_position_mode okx (clock w) of
        None \<Rightarrow> (''net'', tick w)
      | Some pos_mode \<Rightarrow>
          (if pos_mode = ''net_mode'' \<or> pos_mode = ''net'' then (''net'', tick w)
           else if pos_mode = ''long_short_mode'' \<or> pos_mode = ''long_short''
             then (''long_short'', tick w)
           else (''net'', tick w)))"

text \<open>\<open>set_leverage\<close>: one SDK call whose exceptions are swallowed.\<close>

definition set_leverage :: "world \<Rightarrow> string \<Rightarrow> int \<Rightarrow> string \<Rightarrow> string \<Rightarrow> world" where
  "set_leverage w inst_id lever mgn_mode pos_side =
     tick (emit (SetLeverage inst_id lever mgn_mode pos_side) w)"

definition get_cached_position_cap :: "world \<Rightarrow> string \<Rightarrow> int option \<Rightarrow> int option" where
  "get_cached_position_cap w inst_id lever =
     (case lever of None \<Rightarrow> None | Some l \<Rightarrow> cap_cache w (inst_id, l))"

text \<open>\<open>update_position_cap\<close>: \<open>if inst_id and lever and cap\<close> is Python truthiness.\<close>

definition update_position_cap :: "world \<Rightarrow> string \<Rightarrow> int option \<Rightarrow> int option \<Rightarrow> world" where
  "update_position_cap w inst_id lever cap =
     (case (lever, cap) of
        (Some l, Some c) \<Rightarrow>
          (if inst_id \<noteq> [] \<and> l \<noteq> 0 \<and> c \<noteq> 0
           then w\<lparr>cap_cache := (cap_cache w)((inst_id, l) \<mapsto> c)\<rparr>
           else w)
      | _ \<Rightarrow> w)"

text \<open>The SDK call \<open>self.trade.place_order(**params)\<close>: one attempt, recorded in the trace.\<close>

definition trade_place_order ::
  "exchange \<Rightarrow> world \<Rightarrow> order_params \<Rightarrow> response option \<times> world" where
  "trade_place_order okx w params =
     (ex_place_order okx (clock w) params, tick (emit (Submit params) w))"

subsection \<open>Trigger prices\<close>

text \<open>
  Lines 248-257 (and again 273-281) of \<open>place_order\<close>: the direction used for the
  triggers comes from \<open>pos_side\<close>, in net mode from \<open>side\<close>, and defaults to long.
\<close>

definition is_long_of :: "string \<Rightarrow> string \<Rightarrow> bool" where
  "is_long_of pos_side side =
     (if pos_side = ''long'' then True
      else if pos_side = ''short'' then False
      else if pos_side = ''net'' then side = ''buy''
      else True)"

text \<open>Lines 244-265: the take-profit trigger price \<open>tp_px\<close>.\<close>

definition tp_price :: "string \<Rightarrow> string \<Rightarrow> real \<Rightarrow> real \<Rightarrow> real" where
  "tp_price pos_side side last_px tp_ratio =
     (let ratio = \<bar>tp_ratio\<bar>
      in if is_long_of pos_side side
         then (let tp_px = last_px * (1 + ratio)
               in if tp_px \<le> last_px then last_px * 1.002 else tp_px)
         else (let tp_px = last_px * (1 - ratio)
               in if last_px \<le> tp_px then last_px * 0.998 else tp_px))"

text \<open>Lines 272-289: the stop-loss trigger price \<open>sl_px\<close>.\<close>

definition sl_price :: "string \<Rightarrow> string \<Rightarrow> real \<Rightarrow> real \<Rightarrow> real" where
  "sl_price pos_side side last_px sl_ratio =
     (let ratio = \<bar>sl_ratio\<bar>
      in if is_long_of pos_side side
         then (let sl_px = last_px * (1 - ratio)
               in if last_px \<le> sl_px then last_px * 0.998 else sl_px)
         else (let sl_px = last_px * (1 + ratio)
               in if sl_px \<le> last_px then last_px * 1.002 else sl_px))"

text \<open>
  Lines 227-295: the parameters of the first attempt. \<open>last\<close> is the price fetched
  when a ratio is given (\<open>None\<close> otherwise).
\<close>

definition build_params ::
  "string \<Rightarrow> string \<Rightarrow> string \<Rightarrow> string \<Rightarrow> string \<Rightarrow> string \<Rightarrow> real option \<Rightarrow> real option
     \<Rightarrow> string \<Rightarrow> string \<Rightarrow> real option \<Rightarrow> order_params" where
  "build_params inst_id side td_mode sz ord_type pos_side tp_ratio sl_ratio
       tp_trigger_type sl_trigger_type last_px =
     \<lparr>p_instId = inst_id, p_tdMode = td_mode, p_side = side, p_ordType = ord_type, p_sz = sz,
      p_posSide = (if pos_side = ''long'' \<or> pos_side = ''short'' then Some pos_side else None),
      p_attachAlgoOrds =
        (if tp_ratio = None \<and> sl_ratio = None then None
         else Some
           \<lparr>tpTriggerPx = map_option (\<lambda>r. fmt6 (tp_price pos_side side (the last_px) r)) tp_ratio,
            tpTriggerPxType = map_option (\<lambda>r. tp_trigger_type) tp_ratio,
            tpOrdPx = map_option (\<lambda>r. ''-1'') tp_ratio,
            slTriggerPx = map_option (\<lambda>r. fmt6 (sl_price pos_side side (the last_px) r)) sl_ratio,
            slTriggerPxType = map_option (\<lambda>r. sl_trigger_type) sl_ratio,
            slOrdPx = map_option (\<lambda>r. ''-1'') sl_ratio\<rparr>)\<rparr>"

subsection \<open>Reading a rejection\<close>

text \<open>\<open>data_list[0]\<close> when \<open>result\<close> is a dictionary with a non-empty \<open>data\<close> list.\<close>

definition first_item :: "response \<Rightarrow> item option" where
  "first_item result =
     (case result of
        Reply c (it # rest) \<Rightarrow> Some it
      | _ \<Rightarrow> None)"

text \<open>Lines 305-316: \<open>try_retry\<close>, the TP-direction rejection.\<close>

definition tp_rejected :: "response \<Rightarrow> bool" where
  "tp_rejected result =
     (case first_item result of
        None \<Rightarrow> False
      | Some it \<Rightarrow>
          (let s_code = sCode it; s_msg = lower (sMsg it)
           in s_code = ''51052'' \<or> s_code = ''51051''
              \<or> (contains ''tp price'' s_msg
                  \<and> (contains ''lower'' s_msg \<or> contains ''higher'' s_msg))))"

text \<open>
  \<open>re.findall(r"([0-9,]+)\(contracts\)", s_msg)[0]\<close>: the first maximal run of digits
  and commas that is directly followed by \<open>(contracts)\<close>. \<open>run\<close> is the run read so
  far.
\<close>

definition cap_char :: "char \<Rightarrow> bool" where
  "cap_char c = (is_digit c \<or> c = CHR '','')"

fun scan_contracts :: "string \<Rightarrow> string \<Rightarrow> string option" where
  "scan_contracts run [] = None"
| "scan_contracts run (c # cs) =
     (if cap_char c then scan_contracts (run @ [c]) cs
      else if run \<noteq> [] \<and> starts_with ''(contracts)'' (c # cs) then Some run
      else scan_contracts [] cs)"

definition first_contracts_match :: "string \<Rightarrow> string option" where
  "first_contracts_match s_msg = scan_contracts [] s_msg"

text \<open>
  \<open>int(m.replace(",", ""))\<close> on a run of digits and commas: \<open>None\<close> is the
  \<open>ValueError\<close> of \<open>int("")\<close>.
\<close>

definition int_of_grouped :: "string \<Rightarrow> int option" where
  "int_of_grouped m =
     (let ds = filter (\<lambda>c. c \<noteq> CHR '','') m
      in if ds = [] then None else Some (foldl (\<lambda>a c. 10 * a + digit_val c) 0 ds))"

text \<open>
  \<open>re.search(r"maximum position amount[^0-9]*([0-9,]+)", s_msg, re.IGNORECASE)\<close>
  followed by the same \<open>int\<close>: after the first occurrence of the phrase the non-digits
  are skipped and the run of digits and commas that starts at the first digit is read.
  When no digit follows, the pattern matches at most a lone comma, on which \<open>int\<close>
  raises, so the value is \<open>None\<close> either way.
\<close>

fun find_after :: "string \<Rightarrow> string \<Rightarrow> string option" where
  "find_after needle [] = (if needle = [] then Some [] else None)"
| "find_after needle (c # cs) =
     (if starts_with needle (lower (c # cs)) then Some (drop (length needle) (c # cs))
      else find_after needle cs)"

definition max_amount_value :: "string \<Rightarrow> int option" where
  "max_amount_value s_msg =
     (case find_after ''maximum position amount'' s_msg of
        None \<Rightarrow> None
      | Some rest \<Rightarrow>
          (let r2 = dropWhile (\<lambda>c. \<not> is_digit c) rest
           in if r2 = [] then None else int_of_grouped (takeWhile cap_char r2)))"

text \<open>Lines 352-368: \<open>cap_value\<close>.\<close>

definition parse_cap :: "string \<Rightarrow> int option" where
  "parse_cap s_msg =
     (case first_contracts_match s_msg of
        Some m \<Rightarrow>
          (case int_of_grouped m of
             Some v \<Rightarrow> Some v
           | None \<Rightarrow> max_amount_value s_msg)
      | None \<Rightarrow> max_amount_value s_msg)"

text \<open>\<open>int(float(sz))\<close>, \<open>None\<close> when it raises.\<close>

definition cur_sz_of :: "(string \<Rightarrow> real option) \<Rightarrow> string \<Rightarrow> int option" where
  "cur_sz_of py_float sz = map_option py_int (py_float sz)"

subsection \<open>The retry ladder of place\_order\<close>

text \<open>
  Lines 317-339: the retry after a TP-direction rejection. The TP trigger is moved to
  the other side of \<open>last\<close> and the order is submitted once more.
\<close>

definition tp_retry_params :: "order_params \<Rightarrow> real \<Rightarrow> real \<Rightarrow> order_params" where
  "tp_retry_params params last_px tp_ratio =
     (let a = the (p_attachAlgoOrds params);
          orig_tp = the (tpTriggerPx a);
          ratio = (if \<bar>tp_ratio\<bar> = 0 then 0.01 else \<bar>tp_ratio\<bar>);
          new_tp = (if last_px \<le> orig_tp then last_px * (1 - max 0.001 ratio)
                    else last_px * (1 + max 0.001 ratio))
      in params\<lparr>p_attachAlgoOrds := Some (a\<lparr>tpTriggerPx := Some (fmt6 new_tp)\<rparr>)\<rparr>)"

text \<open>
  Lines 369-391: the retry after a size-cap rejection (\<open>51004\<close>). The result is the
  retry's answer when a retry is made (\<open>Some\<close>), and the cache may be updated.
\<close>

definition cap_retry ::
  "(string \<Rightarrow> real option) \<Rightarrow> exchange \<Rightarrow> world \<Rightarrow> order_params \<Rightarrow> string \<Rightarrow> string
     \<Rightarrow> int option \<Rightarrow> string \<Rightarrow> (response option) option \<times> world" where
  "cap_retry py_float okx w params inst_id sz lever s_msg =
     (let cap_value = parse_cap s_msg;
          cur_sz = cur_sz_of py_float sz
      in case cur_sz of
           None \<Rightarrow> (None, w)
         | Some cs \<Rightarrow>
             if cs = 0 then (None, w)
             else
               (let w1 = (if cap_value \<noteq> None \<and> cap_value \<noteq> Some 0
                          then update_position_cap w inst_id lever cap_value else w);
                    new_sz = (if cap_value \<noteq> None \<and> cap_value \<noteq> Some 0
                              then max 1 (min cs (the cap_value))
                              else max 1 (cs div 2))
                in if new_sz \<noteq> cs
                   then (case trade_place_order okx w1 (params\<lparr>p_sz := py_str new_sz\<rparr>) of
                           (r, w2) \<Rightarrow> (Some r, w2))
                   else (None, w1)))"

text \<open>Lines 401-415: the retry after an insufficient-margin rejection (\<open>51008\<close>).\<close>

definition margin_retry ::
  "(string \<Rightarrow> real option) \<Rightarrow> exchange \<Rightarrow> world \<Rightarrow> order_params \<Rightarrow> string
     \<Rightarrow> (response option) option \<times> world" where
  "margin_retry py_float okx w params sz =
     (case cur_sz_of py_float sz of
        None \<Rightarrow> (None, w)
      | Some cs \<Rightarrow>
          if cs \<noteq> 0 \<and> 1 < cs
          then (case trade_place_order okx w (params\<lparr>p_sz := py_str (max 1 (cs div 2))\<rparr>) of
                  (r, w1) \<Rightarrow> (Some r, w1))
          else (None, w))"

text \<open>
  Lines 300-416, the body of the \<open>try\<close>: the first attempt and the three retry
  branches in their order. The result \<open>None\<close> is an exception raised by the SDK.
\<close>

definition submit_with_retries ::
  "(string \<Rightarrow> real option) \<Rightarrow> exchange \<Rightarrow> world \<Rightarrow> order_params \<Rightarrow> string \<Rightarrow> string
     \<Rightarrow> int option \<Rightarrow> real option \<Rightarrow> real option \<Rightarrow> response option \<times> world" where
  "submit_with_retries py_float okx w params inst_id sz lever tp_ratio last_px =
     (case trade_place_order okx w params of
        (None, w1) \<Rightarrow> (None, w1)
      | (Some result, w1) \<Rightarrow>
          if tp_rejected result \<and> tp_ratio \<noteq> None \<and> last_px \<noteq> None \<and> last_px \<noteq> Some 0
          then trade_place_order okx w1 (tp_retry_params params (the last_px) (the tp_ratio))
          else
            (case (if (case first_item result of None \<Rightarrow> False
                         | Some it \<Rightarrow> sCode it = ''51004'')
                   then cap_retry py_float okx w1 params inst_id sz lever
                          (sMsg (the (first_item result)))
                   else (None, w1)) of
               (Some r, w2) \<Rightarrow> (r, w2)
             | (None, w2) \<Rightarrow>
                 (case (if (case first_item result of None \<Rightarrow> False
                              | Some it \<Rightarrow> sCode it = ''51008'')
                        then margin_retry py_float okx w2 params sz
                        else (None, w2)) of
                    (Some r, w3) \<Rightarrow> (r, w3)
                  | (None, w3) \<Rightarrow> (Some result, w3))))"

text \<open>
  Lines 417-420: an exception inside the \<open>try\<close> becomes the reply with code \<open>-1\<close>.
\<close>

definition caught :: "response option \<Rightarrow> response" where
  "caught r = (case r of None \<Rightarrow> Reply ''-1'' [] | Some x \<Rightarrow> x)"

text \<open>
  Lines 238-240: the price is fetched only when a ratio is given. This is outside the
  \<open>try\<close>, so a \<open>NetworkError\<close> reaches the caller of \<open>place_order\<close>.
\<close>

definition fetch_last ::
  "exchange \<Rightarrow> world \<Rightarrow> string \<Rightarrow> real option \<Rightarrow> real option
     \<Rightarrow> (error + real option) \<times> world" where
  "fetch_last okx w inst_id tp_ratio sl_ratio =
     (if tp_ratio \<noteq> None \<or> sl_ratio \<noteq> None
      then (case get_last_price okx w inst_id of
              (Inl e, w1) \<Rightarrow> (Inl e, w1)
            | (Inr p, w1) \<Rightarrow> (Inr (Some p), w1))
      else (Inr None, w))"

text \<open>\<open>OkxClient.place_order\<close>, lines 209-420.\<close>

definition place_order ::
  "(string \<Rightarrow> real option) \<Rightarrow> exchange \<Rightarrow> world \<Rightarrow> string \<Rightarrow> string \<Rightarrow> string \<Rightarrow> string
     \<Rightarrow> string \<Rightarrow> string \<Rightarrow> real option \<Rightarrow> real option \<Rightarrow> string \<Rightarrow> string \<Rightarrow> int option
     \<Rightarrow> (error + response) \<times> world" where
  "place_order py_float okx w inst_id side td_mode sz ord_type pos_side tp_ratio sl_ratio
       tp_trigger_type sl_trigger_type lever =
     (case fetch_last okx w inst_id tp_ratio sl_ratio of
        (Inl e, w1) \<Rightarrow> (Inl e, w1)
      | (Inr last_px, w1) \<Rightarrow>
          (case submit_with_retries py_float okx w1
                  (build_params inst_id side td_mode sz ord_type pos_side tp_ratio sl_ratio
                     tp_trigger_type sl_trigger_type last_px)
                  inst_id sz lever tp_ratio last_px of
             (r, w2) \<Rightarrow> (Inr (caught r), w2)))"

text \<open>
  What a retry branch may do: nothing to the trace, or exactly one more submission
  whose answer is its result.
\<close>

definition one_more :: "exchange \<Rightarrow> world \<Rightarrow> (response option) option \<Rightarrow> world \<Rightarrow> bool" where
  "one_more okx w r w' =
     ((r = None \<and> trace w' = trace w \<and> clock w' = clock w)
      \<or> (\<exists>p. r = Some (ex_place_order okx (clock w) p)
              \<and> trace w' = trace w @ [Submit p] \<and> clock w' = Suc (clock w)))"

section \<open>The direction oracle (ai\_client.py)\<close>

text \<open>
  \<open>[float(c[4]) for c in candles]\<close>: \<open>c[4]\<close> raises \<open>IndexError\<close> on a row with fewer
  than five fields, \<open>float\<close> raises \<open>ValueError\<close>.
\<close>

fun closes_of :: "(string \<Rightarrow> real option) \<Rightarrow> candle list \<Rightarrow> error + real list" where
  "closes_of py_float [] = Inr []"
| "closes_of py_float (c # cs) =
     (if length c \<le> 4 then Inl IndexError
      else (case py_float (c ! 4) of
              None \<Rightarrow> Inl ValueError
            | Some v \<Rightarrow>
                (case closes_of py_float cs of
                   Inl e \<Rightarrow> Inl e
                 | Inr vs \<Rightarrow> Inr (v # vs))))"

text \<open>
  The momentum rule written twice in the source (lines 81-87 with a window of 10, lines
  97-103 with a window of 30): \<open>closes[-1] > closes[0]\<close> over the first \<open>n\<close> rows, and
  \<open>short\<close> when anything raises.
\<close>

definition momentum :: "(string \<Rightarrow> real option) \<Rightarrow> nat \<Rightarrow> candle list \<Rightarrow> string" where
  "momentum py_float n candles =
     (case closes_of py_float (take n candles) of
        Inl e \<Rightarrow> ''short''
      | Inr closes \<Rightarrow>
          if 2 \<le> length closes \<and> hd closes < last closes then ''long'' else ''short'')"

definition HeuristicAIClient_decide_direction ::
  "(string \<Rightarrow> real option) \<Rightarrow> string \<Rightarrow> candle list \<Rightarrow> string" where
  "HeuristicAIClient_decide_direction py_float inst_id candles = momentum py_float 30 candles"

text \<open>
  What the HTTP exchange with the model service does: the request fails (transport
  fault or timeout), \<open>raise_for_status\<close> raises, the body is not the expected JSON, or
  the body carries the answer text.
\<close>

datatype http_outcome = TransportFault | BadStatus | BadBody | Content string

definition is_space :: "char \<Rightarrow> bool" where
  "is_space c = (let n = (of_char c :: nat) in (9 \<le> n \<and> n \<le> 13) \<or> (28 \<le> n \<and> n \<le> 32))"

definition strip :: "string \<Rightarrow> string" where
  "strip s = rev (dropWhile is_space (rev (dropWhile is_space s)))"

text \<open>
  \<open>OpenAICompatClient.decide_direction\<close>, lines 56-87. The statements inside the
  \<open>with\<close> block are not inside any \<open>try\<close>: what they raise leaves the function.
\<close>

definition OpenAICompatClient_decide_direction ::
  "(string \<Rightarrow> real option) \<Rightarrow> (nat \<Rightarrow> http_outcome) \<Rightarrow> world \<Rightarrow> string \<Rightarrow> candle list
     \<Rightarrow> (error + string) \<times> world" where
  "OpenAICompatClient_decide_direction py_float post w inst_id candles =
     (case post (clock w) of
        TransportFault \<Rightarrow> (Inl HTTPError, tick w)
      | BadStatus \<Rightarrow> (Inl HTTPError, tick w)
      | BadBody \<Rightarrow> (Inl KeyError, tick w)
      | Content c \<Rightarrow>
          (let content = lower (strip c)
           in if contains ''long'' content \<and> \<not> contains ''short'' content
                then (Inr ''long'', tick w)
              else if contains ''short'' content \<and> \<not> contains ''long'' content
                then (Inr ''short'', tick w)
              else (Inr (momentum py_float 10 candles), tick w)))"

datatype ai_client = OpenAICompatClient "nat \<Rightarrow> http_outcome" | HeuristicAIClient

definition decide_direction ::
  "(string \<Rightarrow> real option) \<Rightarrow> ai_client \<Rightarrow> world \<Rightarrow> string \<Rightarrow> candle list
     \<Rightarrow> (error + string) \<times> world" where
  "decide_direction py_float ai w inst_id candles =
     (case ai of
        OpenAICompatClient post \<Rightarrow>
          OpenAICompatClient_decide_direction py_float post w inst_id candles
      | HeuristicAIClient \<Rightarrow>
          (Inr (HeuristicAIClient_decide_direction py_float inst_id candles), w))"

section \<open>Size planner (trader.py)\<close>

record SizePlan =
  contracts :: int
  notional :: real

text \<open>
  \<open>plan_size_from_notional\<close>, lines 40-62. \<open>float(...) or 1.0\<close> replaces a zero price
  by 1; the division by \<open>leverage\<close> in \<open>next_amt\<close> raises for leverage 0. Each float
  operation is the exact operation followed by \<open>rnd\<close>: the int \<open>leverage\<close> and the
  int \<open>contracts + 1\<close> are converted to float (\<open>rnd\<close> of the integer) before they
  are multiplied or divided, and \<open>int(coin_qty)\<close> truncates exactly.
\<close>

definition plan_size_from_notional ::
  "(real \<Rightarrow> real) \<Rightarrow> exchange \<Rightarrow> world \<Rightarrow> string \<Rightarrow> real \<Rightarrow> int
     \<Rightarrow> (error + SizePlan) \<times> world" where
  "plan_size_from_notional rnd okx w inst_id notional_usdt leverage =
     (case get_last_price okx w inst_id of
        (Inl e, w1) \<Rightarrow> (Inl e, w1)
      | (Inr p, w1) \<Rightarrow>
          (let last = (if p = 0 then 1 else p);
               lev = rnd (real_of_int leverage);
               effective = rnd (notional_usdt * lev);
               coin_qty = rnd (effective / last);
               contracts0 = max 1 (py_int coin_qty)
           in if leverage = 0 then (Inl ZeroDivisionError, w1)
              else
                (let next_amt = rnd (rnd (rnd (real_of_int (contracts0 + 1)) * last) / lev)
                 in (Inr \<lparr>contracts = (if next_amt \<le> notional_usdt then contracts0 + 1
                                         else contracts0),
                          notional = notional_usdt\<rparr>, w1))))"

section \<open>Opening a position (trader.py)\<close>

record InstrumentConfig =
  ic_inst_id :: string
  ic_leverage :: "int option"
  ic_tp_percent :: "real option"
  ic_sl_percent :: "real option"
  ic_base_notional_usdt :: "real option"
  ic_fixed_contracts :: "int option"
  ic_max_contracts :: "int option"

record TradingConfig =
  tc_poll_interval_sec :: int
  tc_default_leverage :: int
  tc_default_tp_percent :: real
  tc_default_sl_percent :: real
  tc_base_notional_usdt :: real
  tc_margin_mode :: string
  tc_dry_run :: bool
  tc_max_contracts :: "int option"

record AppConfig =
  cfg_trading :: TradingConfig
  cfg_instruments :: "InstrumentConfig list"

text \<open>Python truthiness of an optional int: neither \<open>None\<close> nor 0.\<close>

definition truthy :: "int option \<Rightarrow> bool" where
  "truthy x = (x \<noteq> None \<and> x \<noteq> Some 0)"

text \<open>
  Lines 125-141 of \<open>open_position\<close>: \<open>fixed_contracts\<close> replaces the planned count;
  otherwise the smallest of the caps that are set clamps it.
\<close>

definition resolve_contracts :: "InstrumentConfig \<Rightarrow> AppConfig \<Rightarrow> int option \<Rightarrow> int \<Rightarrow> int" where
  "resolve_contracts inst cfg max_cap planned =
     (if truthy (ic_fixed_contracts inst) then the (ic_fixed_contracts inst)
      else
        (let inst_max = ic_max_contracts inst;
             global_max = tc_max_contracts (cfg_trading cfg);
             candidates = map the (filter truthy [inst_max, global_max, max_cap])
         in if candidates \<noteq> []
            then (let hard_cap = min_list candidates
                  in if hard_cap < planned then hard_cap else planned)
            else planned))"

text \<open>Lines 178-189: the order id of a reply, \<open>None\<close> unless the code is 0 and an id is there.\<close>

definition order_id_of :: "response \<Rightarrow> string option" where
  "order_id_of r =
     (case r of
        Reply c (it # rest) \<Rightarrow> if c = ''0'' \<and> ordId it \<noteq> [] then Some (ordId it) else None
      | _ \<Rightarrow> None)"

text \<open>
  Lines 100-141: leverage, ratios and notional from the configuration, the balance
  check, the plan and its clamping. The result is \<open>None\<close> when the balance is not
  positive, otherwise the leverage and the contract count to submit.
\<close>

definition leverage_of :: "InstrumentConfig \<Rightarrow> AppConfig \<Rightarrow> int" where
  "leverage_of inst cfg =
     (if truthy (ic_leverage inst) then the (ic_leverage inst)
      else tc_default_leverage (cfg_trading cfg))"

definition size_position ::
  "(real \<Rightarrow> real) \<Rightarrow> exchange \<Rightarrow> world \<Rightarrow> AppConfig \<Rightarrow> InstrumentConfig
     \<Rightarrow> (error + int option) \<times> world" where
  "size_position rnd okx w cfg inst =
     (let leverage = leverage_of inst cfg;
          base_notional =
            (case ic_base_notional_usdt inst of
               None \<Rightarrow> tc_base_notional_usdt (cfg_trading cfg)
             | Some b \<Rightarrow> if b = 0 then tc_base_notional_usdt (cfg_trading cfg) else b)
      in case get_usdt_balance okx w of
           (Inl e, w1) \<Rightarrow> (Inl e, w1)
         | (Inr balance, w1) \<Rightarrow>
             if balance \<le> 0 then (Inr None, w1)
             else
               (case plan_size_from_notional rnd okx w1 (ic_inst_id inst)
                       (min balance base_notional) leverage of
                  (Inl e, w2) \<Rightarrow> (Inl e, w2)
                | (Inr sz_plan, w2) \<Rightarrow>
                    (Inr (Some (resolve_contracts inst cfg
                             (get_cached_position_cap w2 (ic_inst_id inst) (Some leverage))
                             (contracts sz_plan))), w2)))"

text \<open>
  \<open>open_position\<close>, lines 65-189. \<open>candles_override or okx.get_candles(...)\<close> fetches
  again when the override is \<open>None\<close> or empty.
\<close>

definition open_position ::
  "(string \<Rightarrow> real option) \<Rightarrow> (real \<Rightarrow> real) \<Rightarrow> exchange \<Rightarrow> ai_client \<Rightarrow> AppConfig
     \<Rightarrow> InstrumentConfig \<Rightarrow> bool \<Rightarrow> candle list option \<Rightarrow> world
     \<Rightarrow> (error + string option) \<times> world" where
  "open_position py_float rnd okx ai cfg inst dry_run candles_override w0 =
     (case (case candles_override of
              Some (c # cs) \<Rightarrow> (Inr (c # cs), emit (OpenPosition (ic_inst_id inst)) w0)
            | _ \<Rightarrow> get_candles okx (emit (OpenPosition (ic_inst_id inst)) w0) (ic_inst_id inst)) of
        (Inl e, w1) \<Rightarrow> (Inl e, w1)
      | (Inr candles, w1) \<Rightarrow>
          (case decide_direction py_float ai w1 (ic_inst_id inst) candles of
             (Inl e, w2) \<Rightarrow> (Inl e, w2)
           | (Inr direction, w2) \<Rightarrow>
               (case get_position_mode okx w2 of
                  (acc_pos_mode, w3) \<Rightarrow>
                    (let pos_side = (if acc_pos_mode = ''net'' then ''net''
                                     else if direction = ''long'' then ''long'' else ''short'');
                         side = (if direction = ''long'' then ''buy'' else ''sell'');
                         leverage = leverage_of inst cfg;
                         tp = (case ic_tp_percent inst of
                                 None \<Rightarrow> tc_default_tp_percent (cfg_trading cfg) | Some t \<Rightarrow> t);
                         sl = (case ic_sl_percent inst of
                                 None \<Rightarrow> tc_default_sl_percent (cfg_trading cfg) | Some t \<Rightarrow> t)
                     in case size_position rnd okx w3 cfg inst of
                          (Inl e, w4) \<Rightarrow> (Inl e, w4)
                        | (Inr None, w4) \<Rightarrow> (Inr None, w4)
                        | (Inr (Some n), w4) \<Rightarrow>
                            if dry_run then (Inr (Some ''dry-run-order-id''), w4)
                            else
                              (case place_order py_float okx
                                      (set_leverage w4 (ic_inst_id inst) leverage
                                         (tc_margin_mode (cfg_trading cfg)) pos_side)
                                      (ic_inst_id inst) side (tc_margin_mode (cfg_trading cfg))
                                      (py_str n) ''market'' pos_side (Some tp) (Some sl)
                                      ''last'' ''last'' (Some leverage) of
                                 (Inl e, w5) \<Rightarrow> (Inl e, w5)
                               | (Inr r, w5) \<Rightarrow> (Inr (order_id_of r), w5))))))"

section \<open>The trading loop (trader.py)\<close>

text \<open>
  \<open>any(abs(float(p.get("pos", 0))) > 0 for p in positions)\<close>: evaluated from the left,
  stopping at the first open position; a \<open>pos\<close> that \<open>float\<close> rejects raises.
\<close>

fun any_open :: "(string \<Rightarrow> real option) \<Rightarrow> position list \<Rightarrow> error + bool" where
  "any_open py_float [] = Inr False"
| "any_open py_float (p # ps) =
     (case pos p of
        None \<Rightarrow> any_open py_float ps
      | Some s \<Rightarrow>
          (case py_float s of
             None \<Rightarrow> Inl ValueError
           | Some v \<Rightarrow> if 0 < \<bar>v\<bar> then Inr True else any_open py_float ps))"

text \<open>
  \<open>poll_until_no_positions\<close>, lines 193-200: the loop has no bound, so the function
  is partial; \<open>None\<close> is a wait that never ends.
\<close>

partial_function (option) poll_until_no_positions ::
  "(string \<Rightarrow> real option) \<Rightarrow> exchange \<Rightarrow> int \<Rightarrow> world \<Rightarrow> ((error + unit) \<times> world) option" where
  "poll_until_no_positions py_float okx poll_sec w =
     (case get_positions okx w of
        (Inl e, w1) \<Rightarrow> Some (Inl e, w1)
      | (Inr positions, w1) \<Rightarrow>
          (case any_open py_float positions of
             Inl e \<Rightarrow> Some (Inl e, w1)
           | Inr b \<Rightarrow>
               if \<not> b then Some (Inr (), w1)
               else poll_until_no_positions py_float okx poll_sec (sleep poll_sec w1)))"

text \<open>
  \<open>log_close_order\<close>, lines 202-229: the balance query (whose \<open>NetworkError\<close> is not
  caught here), the position summary (one more query, exceptions swallowed), and the
  ledger row.
\<close>

definition log_close_order :: "exchange \<Rightarrow> world \<Rightarrow> string \<Rightarrow> (error + unit) \<times> world" where
  "log_close_order okx w inst_id =
     (case get_usdt_balance okx w of
        (Inl e, w1) \<Rightarrow> (Inl e, w1)
      | (Inr close_balance, w1) \<Rightarrow> (Inr (), emit (LedgerRow inst_id) (tick w1)))"

text \<open>How one pass through the body of \<open>while True\<close> ends.\<close>

datatype cycle_end = NextCycle | Uncaught error

text \<open>
  Lines 295-300: \<open>except NetworkError\<close> sleeps and continues; any other exception
  leaves \<open>trade_loop\<close>.
\<close>

definition on_exception :: "error \<Rightarrow> int \<Rightarrow> nat \<Rightarrow> world \<Rightarrow> cycle_end \<times> nat \<times> world" where
  "on_exception e poll_sec idx w =
     (if e = NetworkError then (NextCycle, idx, sleep poll_sec w) else (Uncaught e, idx, w))"

text \<open>Lines 280-294: the wait for the close and the ledger row, after an order id.\<close>

definition await_close ::
  "(string \<Rightarrow> real option) \<Rightarrow> exchange \<Rightarrow> bool \<Rightarrow> int \<Rightarrow> string \<Rightarrow> nat \<Rightarrow> world
     \<Rightarrow> (cycle_end \<times> nat \<times> world) option" where
  "await_close py_float okx dry_run poll_sec inst_id idx w =
     (if dry_run
      then (case log_close_order okx (sleep poll_sec w) inst_id of
              (Inl e, w1) \<Rightarrow> Some (on_exception e poll_sec idx w1)
            | (Inr u, w1) \<Rightarrow> Some (NextCycle, idx, w1))
      else (case poll_until_no_positions py_float okx poll_sec w of
              None \<Rightarrow> None
            | Some (Inl e, w1) \<Rightarrow> Some (on_exception e poll_sec idx w1)
            | Some (Inr u, w1) \<Rightarrow>
                (case log_close_order okx w1 inst_id of
                   (Inl e, w2) \<Rightarrow> Some (on_exception e poll_sec idx w2)
                 | (Inr u2, w2) \<Rightarrow> Some (NextCycle, idx, w2))))"

text \<open>
  Lines 264-294: the part of a cycle after the entry guard. The cursor \<open>idx\<close> is
  incremented first.
\<close>

definition attempt_open ::
  "(string \<Rightarrow> real option) \<Rightarrow> (real \<Rightarrow> real) \<Rightarrow> exchange \<Rightarrow> ai_client \<Rightarrow> AppConfig
     \<Rightarrow> nat \<Rightarrow> world \<Rightarrow> (cycle_end \<times> nat \<times> world) option" where
  "attempt_open py_float rnd okx ai cfg idx w =
     (let poll_sec = tc_poll_interval_sec (cfg_trading cfg);
          dry_run = tc_dry_run (cfg_trading cfg);
          inst = cfg_instruments cfg ! (idx mod length (cfg_instruments cfg));
          idx1 = idx + 1
      in case get_candles okx w (ic_inst_id inst) of
           (Inl e, w1) \<Rightarrow> Some (on_exception e poll_sec idx1 w1)
         | (Inr candles_1h, w1) \<Rightarrow>
             (case get_usdt_balance okx w1 of
                (Inl e, w2) \<Rightarrow> Some (on_exception e poll_sec idx1 w2)
              | (Inr open_balance, w2) \<Rightarrow>
                  (case open_position py_float rnd okx ai cfg inst dry_run (Some candles_1h) w2 of
                     (Inl e, w3) \<Rightarrow> Some (on_exception e poll_sec idx1 w3)
                   | (Inr None, w3) \<Rightarrow> Some (NextCycle, idx1, sleep poll_sec w3)
                   | (Inr (Some ord_id), w3) \<Rightarrow>
                       await_close py_float okx dry_run poll_sec (ic_inst_id inst) idx1 w3)))"

text \<open>
  One pass through the body of \<open>while True\<close> in \<open>trade_loop\<close>, lines 251-300, from the
  cursor \<open>idx\<close> and the world \<open>w\<close>. \<open>None\<close> is a cycle that never ends (the wait for
  the close has no bound).
\<close>

definition trade_cycle ::
  "(string \<Rightarrow> real option) \<Rightarrow> (real \<Rightarrow> real) \<Rightarrow> exchange \<Rightarrow> ai_client \<Rightarrow> AppConfig
     \<Rightarrow> nat \<Rightarrow> world \<Rightarrow> (cycle_end \<times> nat \<times> world) option" where
  "trade_cycle py_float rnd okx ai cfg idx w =
     (let poll_sec = tc_poll_interval_sec (cfg_trading cfg)
      in case get_positions okx w of
           (Inl e, w1) \<Rightarrow> Some (on_exception e poll_sec idx w1)
         | (Inr positions, w1) \<Rightarrow>
             (case any_open py_float positions of
                Inl e \<Rightarrow> Some (on_exception e poll_sec idx w1)
              | Inr b \<Rightarrow>
                  if b then Some (NextCycle, idx, sleep poll_sec w1)
                  else attempt_open py_float rnd okx ai cfg idx w1))"

text \<open>
  \<open>trade_loop\<close>, lines 232-300: it returns at once without instruments; otherwise it
  ends only through an exception that is not a \<open>NetworkError\<close>. The result is that
  exception (\<open>None\<close> for the early return) with the final cursor and world.
\<close>

partial_function (option) trade_loop_from ::
  "(string \<Rightarrow> real option) \<Rightarrow> (real \<Rightarrow> real) \<Rightarrow> exchange \<Rightarrow> ai_client \<Rightarrow> AppConfig
     \<Rightarrow> nat \<Rightarrow> world \<Rightarrow> (error option \<times> nat \<times> world) option" where
  "trade_loop_from py_float rnd okx ai cfg idx w =
     (case trade_cycle py_float rnd okx ai cfg idx w of
        None \<Rightarrow> None
      | Some (NextCycle, idx1, w1) \<Rightarrow> trade_loop_from py_float rnd okx ai cfg idx1 w1
      | Some (Uncaught e, idx1, w1) \<Rightarrow> Some (Some e, idx1, w1))"

definition trade_loop ::
  "(string \<Rightarrow> real option) \<Rightarrow> (real \<Rightarrow> real) \<Rightarrow> exchange \<Rightarrow> ai_client \<Rightarrow> AppConfig
     \<Rightarrow> world \<Rightarrow> (error option \<times> nat \<times> world) option" where
  "trade_loop py_float rnd okx ai cfg w =
     (if cfg_instruments cfg = [] then Some (None, 0, w)
      else trade_loop_from py_float rnd okx ai cfg 0 w)"

section \<open>Concrete inputs\<close>

text \<open>
  \<open>float\<close> on a non-empty string of ASCII digits; every other string is rejected here.
  It is used only to run the definitions on concrete inputs.
\<close>

definition float_of_digits :: "string \<Rightarrow> real option" where
  "float_of_digits s =
     (if s \<noteq> [] \<and> list_all is_digit s
      then Some (real_of_int (foldl (\<lambda>a c. 10 * a + digit_val c) 0 s))
      else None)"

text \<open>
  Two roundings for concrete runs: the exact one, and a coarse one that rounds to the
  nearest multiple of 1/4 (half up), on which the effect of rounding in the size planner
  shows at small numbers.
\<close>

definition exact :: "real \<Rightarrow> real" where
  "exact x = x"

definition round_to_quarters :: "real \<Rightarrow> real" where
  "round_to_quarters x = real_of_int \<lfloor>x * 4 + 1 / 2\<rfloor> / 4"

text \<open>
  An exchange that answers every call the same way: price 30000, balance 1000, the
  given positions and candles, net mode, and the given reply to every order.
\<close>

definition fixed_exchange :: "position list \<Rightarrow> candle list \<Rightarrow> response option \<Rightarrow> exchange" where
  "fixed_exchange ps cs r =
     \<lparr>ex_last_price = (\<lambda>t i. Some 30000),
      ex_place_order = (\<lambda>t p. r),
      ex_positions = (\<lambda>t. Some ps),
      ex_candles = (\<lambda>t i. Some cs),
      ex_balance = (\<lambda>t. Some 1000),
      ex_position_mode = (\<lambda>t. Some ''net_mode'')\<rparr>"

definition world0 :: world where
  "world0 = \<lparr>clock = 0, cap_cache = Map.empty, trace = []\<rparr>"

definition btc :: InstrumentConfig where
  "btc = \<lparr>ic_inst_id = ''BTC-USDT-SWAP'', ic_leverage = None, ic_tp_percent = None,
          ic_sl_percent = None, ic_base_notional_usdt = None, ic_fixed_contracts = None,
          ic_max_contracts = None\<rparr>"

text \<open>The defaults of \<open>TradingConfig\<close> in \<open>config.py\<close>, with the given \<open>dry_run\<close>.\<close>

definition default_cfg :: "bool \<Rightarrow> AppConfig" where
  "default_cfg dry =
     \<lparr>cfg_trading =
        \<lparr>tc_poll_interval_sec = 30, tc_default_leverage = 100, tc_default_tp_percent = 0.02,
         tc_default_sl_percent = 0.01, tc_base_notional_usdt = 10, tc_margin_mode = ''cross'',
         tc_dry_run = dry, tc_max_contracts = None\<rparr>,
      cfg_instruments = [btc]\<rparr>"

text \<open>Replies of the exchange: an accepted order and the three rejections of the ladder.\<close>

definition accepted :: response where
  "accepted = Reply ''0'' [Item ''0'' [] ''12345'']"

definition tp_rejection :: response where
  "tp_rejection =
     Reply ''1'' [Item ''51051'' ''Your TP price should be higher than the primary order price.'' []]"

definition cap_rejection :: "string \<Rightarrow> response" where
  "cap_rejection msg = Reply ''1'' [Item ''51004'' msg []]"

text \<open>
  Three one-minute candles, newest first (timestamps 3, 2, 1), with closes 100, 101, 102:
  the price fell from 102 to 100.
\<close>

definition falling_candles :: "candle list" where
  "falling_candles =
     [[''3'', ''0'', ''0'', ''0'', ''100''],
      [''2'', ''0'', ''0'', ''0'', ''101''],
      [''1'', ''0'', ''0'', ''0'', ''102'']]"

text \<open>An open position of three contracts, as \<open>get_positions\<close> reports it.\<close>

definition open_btc :: position where
  "open_btc = \<lparr>pos_instId = ''BTC-USDT-SWAP'', pos = Some ''3''\<rparr>"

section \<open>Properties of the size planner\<close>

lemma py_int_mono: "x \<le> y \<Longrightarrow> py_int x \<le> py_int y"
proof -
  assume xy: "x \<le> y"
  show ?thesis
  proof (cases "0 \<le> x")
    case True
    then show ?thesis using xy by (simp add: py_int_def floor_mono)
  next
    case False
    show ?thesis
    proof (cases "0 \<le> y")
      case True
      have "\<lceil>x\<rceil> \<le> 0" using False by (simp add: ceiling_le_iff)
      moreover have "0 \<le> \<lfloor>y\<rfloor>" using True by simp
      ultimately have "\<lceil>x\<rceil> \<le> \<lfloor>y\<rfloor>" by linarith
      then show ?thesis using False True by (simp add: py_int_def)
    next
      case ny: False
      then show ?thesis using False xy by (simp add: py_int_def ceiling_mono)
    qed
  qed
qed

text \<open>
  The plan returned for a non-zero price and a non-zero leverage, with the float
  operations written out.
\<close>

lemma plan_size_value:
  assumes "ex_last_price okx (clock w) inst_id = Some P" "P \<noteq> 0" "L \<noteq> 0"
  shows "plan_size_from_notional rnd okx w inst_id N L =
           (Inr \<lparr>contracts =
                   (if rnd (rnd (rnd (real_of_int
                          (max 1 (py_int (rnd (rnd (N * rnd (real_of_int L)) / P))) + 1)) * P)
                        / rnd (real_of_int L)) \<le> N
                    then max 1 (py_int (rnd (rnd (N * rnd (real_of_int L)) / P))) + 1
                    else max 1 (py_int (rnd (rnd (N * rnd (real_of_int L)) / P)))),
                 notional = N\<rparr>, tick w)"
  using assms
  by (simp add: plan_size_from_notional_def get_last_price_def Let_def)

lemma fixed_exchange_price [simp]:
  "ex_last_price (fixed_exchange ps cs r) t i = Some 30000"
  by (simp add: fixed_exchange_def)

text \<open>
  With exact arithmetic the greedy test \<open>(contracts + 1) * last / leverage \<le> notional\<close>
  is never satisfied for a positive price and leverage, since \<open>contracts\<close> is at least
  the floor of the quotient: the plan is then \<open>max 1 (floor (N * L / P))\<close>.
\<close>

lemma greedy_test_fails_exact:
  assumes "0 < (P::real)" "0 < L"
  shows "\<not> (real_of_int (max 1 (py_int (N * real_of_int L / P)) + 1) * P / real_of_int L \<le> N)"
proof
  let ?q = "N * real_of_int L / P"
  let ?c = "max 1 (py_int ?q)"
  assume h: "real_of_int (?c + 1) * P / real_of_int L \<le> N"
  have "real_of_int (?c + 1) * P \<le> N * real_of_int L"
    using h assms by (simp add: pos_divide_le_eq)
  then have "real_of_int (?c + 1) \<le> ?q"
    using assms by (simp add: pos_le_divide_eq)
  then have a: "?c + 1 \<le> \<lfloor>?q\<rfloor>"
    by (simp add: le_floor_iff)
  have "\<lfloor>?q\<rfloor> \<le> ?c"
    by (cases "0 \<le> ?q") (auto simp: py_int_def max_def intro: order_trans)
  with a show False by linarith
qed

lemma plan_size_exact:
  assumes "ex_last_price okx (clock w) inst_id = Some P" "0 < P" "0 < L"
  shows "plan_size_from_notional exact okx w inst_id N L =
           (Inr \<lparr>contracts = max 1 (py_int (N * real_of_int L / P)), notional = N\<rparr>, tick w)"
  using assms greedy_test_fails_exact [of P L N]
  by (simp add: plan_size_from_notional_def get_last_price_def Let_def exact_def)

text \<open>
  It is rounding that makes the greedy test succeed. On the coarse rounding it succeeds
  for notional 1, leverage 1 and price 0.55: the quotient 1.818 is rounded to 1.75, so
  \<open>contracts\<close> is 1, and 2 * 0.55 = 1.1 is rounded to 1, which is not above the
  notional.
\<close>

lemma greedy_increment_fires:
  "fst (plan_size_from_notional round_to_quarters
          ((fixed_exchange [] [] None)\<lparr>ex_last_price := (\<lambda>t i. Some (11 / 20))\<rparr>)
          world0 ''X'' 1 1)
     = Inr \<lparr>contracts = 2, notional = 1\<rparr>"
proof -
  have a: "ex_last_price ((fixed_exchange [] [] None)\<lparr>ex_last_price := (\<lambda>t i. Some (11 / 20))\<rparr>)
             (clock world0) ''X'' = Some (11 / 20)"
    by simp
  have q1: "round_to_quarters (real_of_int 1) = 1"
    by (simp add: round_to_quarters_def)
  have q2: "round_to_quarters (1 * 1) = 1"
    by (simp add: round_to_quarters_def)
  have q3: "round_to_quarters (1 / (11 / 20)) = 7 / 4"
  proof -
    have "\<lfloor>(1::real) / (11 / 20) * 4 + 1 / 2\<rfloor> = 7" by (simp add: floor_eq_iff)
    then show ?thesis by (simp add: round_to_quarters_def)
  qed
  have c0: "max 1 (py_int (7 / 4)) = 1"
  proof -
    have "\<lfloor>(7::real) / 4\<rfloor> = 1" by (simp add: floor_eq_iff)
    then show ?thesis by (simp add: py_int_def)
  qed
  have q4: "round_to_quarters (real_of_int (1 + 1)) = 2"
    by (simp add: round_to_quarters_def)
  have q5: "round_to_quarters (2 * (11 / 20)) = 1"
  proof -
    have "\<lfloor>(2::real) * (11 / 20) * 4 + 1 / 2\<rfloor> = 4" by (simp add: floor_eq_iff)
    then show ?thesis by (simp add: round_to_quarters_def)
  qed
  have q6: "round_to_quarters (1 / 1) = 1"
    by (simp add: round_to_quarters_def)
  have p: "(11::real) / 20 \<noteq> 0" and l: "(1::int) \<noteq> 0" by simp_all
  note v = plan_size_value [OF a p l, where rnd = round_to_quarters and N = 1]
  show ?thesis
    unfolding v by (simp only: q1 q2 q3 c0 q4 q5 q6) simp
qed

text \<open>
  The inputs notional 7.0, leverage 75 and price 0.07 in double precision (the price is
  the double nearest to 0.07). When \<open>rnd\<close> rounds the intermediate values as rounding
  to the nearest double does, the quotient is just below 7500, \<open>contracts\<close> is 7499,
  and the greedy test succeeds: the plan has 7500 contracts.
\<close>

lemma plan_size_double_example:
  assumes "ex_last_price okx (clock w) inst_id = Some (1261007895663739 / 18014398509481984)"
    and "rnd 75 = 75" and "rnd 525 = 525"
    and "rnd (525 / (1261007895663739 / 18014398509481984)) = 8246337208319999 / 1099511627776"
    and "rnd 7500 = 7500"
    and "rnd (7500 * (1261007895663739 / 18014398509481984)) = 525"
    and "rnd 7 = 7"
  shows "fst (plan_size_from_notional rnd okx w inst_id 7 75)
           = Inr \<lparr>contracts = 7500, notional = 7\<rparr>"
proof -
  have p: "(1261007895663739::real) / 18014398509481984 \<noteq> 0" and l: "(75::int) \<noteq> 0"
    by simp_all
  have f: "\<lfloor>(8246337208319999::real) / 1099511627776\<rfloor> = 7499"
    by (simp add: floor_eq_iff)
  have c0: "max 1 (py_int (8246337208319999 / 1099511627776)) = 7499"
    using f by (simp add: py_int_def)
  have e1: "rnd (real_of_int 75) = 75" using assms(2) by simp
  have e2: "rnd (7 * 75) = 525" using assms(3) by simp
  have e3: "rnd (real_of_int (7499 + 1)) = 7500" using assms(5) by simp
  have e4: "rnd (525 / 75) = 7" using assms(7) by simp
  note v = plan_size_value [OF assms(1) p l, where rnd = rnd and N = 7]
  show ?thesis
    unfolding v by (simp only: e1 e2 assms(4) c0 e3 assms(6) e4) simp
qed

text \<open>
  Claim C6. For every notional \<open>N > 0\<close>, leverage \<open>L \<ge> 1\<close> and reported price \<open>P > 0\<close>,
  and whatever the rounding of the float operations, \<open>plan_size_from_notional\<close>
  returns a plan (it does not raise) whose contract count is at least 1.
\<close>

theorem plan_size_contracts_ge_1:
  assumes "ex_last_price okx (clock w) inst_id = Some P"
    and "0 < N" and "1 \<le> L" and "0 < P"
  shows "\<exists>plan. fst (plan_size_from_notional rnd okx w inst_id N L) = Inr plan
           \<and> 1 \<le> contracts plan"
  using assms by (simp add: plan_size_value le_max_iff_disj)

theorem plan_size_contracts_ge_1_witness:
  "\<exists>plan. fst (plan_size_from_notional round_to_quarters (fixed_exchange [] [] None) world0
                  ''BTC-USDT-SWAP'' 10 100) = Inr plan
          \<and> 1 \<le> contracts plan"
  using plan_size_contracts_ge_1
    [of "fixed_exchange [] [] None" world0 "''BTC-USDT-SWAP''" 30000 10 100 round_to_quarters]
  by simp


lemma round_to_quarters_mono: "mono round_to_quarters"
proof (rule monoI)
  fix x y :: real
  assume "x \<le> y"
  then have "\<lfloor>x * 4 + 1 / 2\<rfloor> \<le> \<lfloor>y * 4 + 1 / 2\<rfloor>"
    by (intro floor_mono) simp
  then show "round_to_quarters x \<le> round_to_quarters y"
    by (simp add: round_to_quarters_def divide_right_mono)
qed

lemma round_to_quarters_0_1: "round_to_quarters 0 = 0" "round_to_quarters 1 = 1"
  by (simp_all add: round_to_quarters_def)

text \<open>
  Claim C9. With the price \<open>P > 0\<close> held fixed, the contract count never decreases when
  the notional grows (\<open>0 < N \<le> N'\<close>) or the leverage grows (\<open>1 \<le> L \<le> L'\<close>); taking
  \<open>L' = L\<close> or \<open>N' = N\<close> gives the two separate monotonicity statements. The count
  is the one \<open>plan_size_from_notional\<close> returns, greedy increment included, and the
  float operations may round in any way that is monotone and leaves 0 and 1 unchanged,
  as rounding to the nearest float does.
\<close>

theorem plan_size_monotone:
  assumes "mono rnd" and "rnd 0 = 0" and "rnd 1 = 1"
    and "ex_last_price okx (clock w) inst_id = Some P"
    and "ex_last_price okx' (clock w') inst_id' = Some P"
    and "0 < P" and "0 < N" and "N \<le> N'" and "1 \<le> L" and "L \<le> L'"
  shows "\<exists>p p'. fst (plan_size_from_notional rnd okx w inst_id N L) = Inr p
           \<and> fst (plan_size_from_notional rnd okx' w' inst_id' N' L') = Inr p'
           \<and> contracts p \<le> contracts p'"
proof -
  define lev where "lev = rnd (real_of_int L)"
  define lev' where "lev' = rnd (real_of_int L')"
  define c where "c = max 1 (py_int (rnd (rnd (N * lev) / P)))"
  define c' where "c' = max 1 (py_int (rnd (rnd (N' * lev') / P)))"
  define nx where "nx = rnd (rnd (rnd (real_of_int (c + 1)) * P) / lev)"
  define nx' where "nx' = rnd (rnd (rnd (real_of_int (c' + 1)) * P) / lev')"
  note m = monoD [OF \<open>mono rnd\<close>]
  have l1: "1 \<le> lev"
    using m [of 1 "real_of_int L"] \<open>1 \<le> L\<close> \<open>rnd 1 = 1\<close> by (simp add: lev_def)
  have ll: "lev \<le> lev'"
    unfolding lev_def lev'_def using \<open>L \<le> L'\<close> by (intro m) simp
  have "N * lev \<le> N' * lev'"
    using \<open>0 < N\<close> \<open>N \<le> N'\<close> l1 ll by (intro mult_mono) auto
  then have "rnd (N * lev) \<le> rnd (N' * lev')" by (rule m)
  then have "rnd (N * lev) / P \<le> rnd (N' * lev') / P"
    using \<open>0 < P\<close> by (simp add: divide_right_mono)
  then have "rnd (rnd (N * lev) / P) \<le> rnd (rnd (N' * lev') / P)" by (rule m)
  then have cc: "c \<le> c'"
    unfolding c_def c'_def using py_int_mono by (auto simp: max_def intro: order_trans)
  have step: "(if nx \<le> N then c + 1 else c) \<le> (if nx' \<le> N' then c' + 1 else c')"
  proof (cases "c = c'")
    case True
    have "0 \<le> real_of_int (c + 1)" unfolding c_def by simp
    then have "0 \<le> rnd (real_of_int (c + 1))"
      using m [of 0 "real_of_int (c + 1)"] \<open>rnd 0 = 0\<close> by simp
    then have "0 \<le> rnd (real_of_int (c + 1)) * P"
      using \<open>0 < P\<close> by simp
    then have x0: "0 \<le> rnd (rnd (real_of_int (c + 1)) * P)"
      using m [of 0 "rnd (real_of_int (c + 1)) * P"] \<open>rnd 0 = 0\<close> by simp
    have "rnd (rnd (real_of_int (c + 1)) * P) / lev'
            \<le> rnd (rnd (real_of_int (c + 1)) * P) / lev"
      using x0 l1 ll by (intro divide_left_mono) auto
    then have "nx' \<le> nx"
      unfolding nx_def nx'_def True [symmetric] by (rule m)
    then show ?thesis using True \<open>N \<le> N'\<close> by auto
  next
    case False
    then have "c + 1 \<le> c'" using cc by simp
    then show ?thesis by auto
  qed
  have L0: "L \<noteq> 0" "L' \<noteq> 0" "P \<noteq> 0"
    using \<open>1 \<le> L\<close> \<open>L \<le> L'\<close> \<open>0 < P\<close> by auto
  have r: "fst (plan_size_from_notional rnd okx w inst_id N L)
             = Inr \<lparr>contracts = (if nx \<le> N then c + 1 else c), notional = N\<rparr>"
    unfolding plan_size_value [OF assms(4) L0(3) L0(1)] nx_def c_def lev_def by simp
  have r': "fst (plan_size_from_notional rnd okx' w' inst_id' N' L')
             = Inr \<lparr>contracts = (if nx' \<le> N' then c' + 1 else c'), notional = N'\<rparr>"
    unfolding plan_size_value [OF assms(5) L0(3) L0(2)] nx'_def c'_def lev'_def by simp
  show ?thesis
    unfolding r r' using step by simp
qed

theorem plan_size_monotone_witness:
  "\<exists>p p'. fst (plan_size_from_notional round_to_quarters
                  ((fixed_exchange [] [] None)\<lparr>ex_last_price := (\<lambda>t i. Some (11 / 20))\<rparr>)
                  world0 ''X'' 1 1) = Inr p
        \<and> fst (plan_size_from_notional round_to_quarters
                  ((fixed_exchange [] [] None)\<lparr>ex_last_price := (\<lambda>t i. Some (11 / 20))\<rparr>)
                  world0 ''X'' 1 2) = Inr p'
        \<and> contracts p \<le> contracts p'"
proof -
  have a: "ex_last_price ((fixed_exchange [] [] None)\<lparr>ex_last_price := (\<lambda>t i. Some (11 / 20))\<rparr>)
             (clock world0) ''X'' = Some (11 / 20)"
    by simp
  have h: "(0::real) < 11 / 20" "(0::real) < 1" "(1::real) \<le> 1" "(1::int) \<le> 1" "(1::int) \<le> 2"
    by simp_all
  show ?thesis
    using plan_size_monotone
      [OF round_to_quarters_mono round_to_quarters_0_1 a a h]
    by simp
qed

text \<open>
  Claim C10. When the exchange reports the price 0, the planner behaves exactly as if it
  had reported 1.0: the two runs give the same result for every notional, leverage and
  rounding, and for a non-zero leverage that result is a plan, not an exception, whose
  contract count is the one computed from price 1.0 (with or without the greedy
  increment). The only division that can raise is the one by \<open>leverage\<close> in
  \<open>next_amt\<close>.
\<close>

theorem plan_size_zero_price:
  assumes "ex_last_price okx (clock w) inst_id = Some 0"
    and "ex_last_price okx1 (clock w1) inst_id1 = Some 1"
  shows "fst (plan_size_from_notional rnd okx w inst_id N L)
           = fst (plan_size_from_notional rnd okx1 w1 inst_id1 N L)
         \<and> (L \<noteq> 0 \<longrightarrow>
              (\<exists>plan. fst (plan_size_from_notional rnd okx w inst_id N L) = Inr plan
                 \<and> (contracts plan
                      = max 1 (py_int (rnd (rnd (N * rnd (real_of_int L)) / 1)))
                    \<or> contracts plan
                      = max 1 (py_int (rnd (rnd (N * rnd (real_of_int L)) / 1))) + 1)))"
  using assms
  by (simp add: plan_size_from_notional_def get_last_price_def Let_def)

theorem plan_size_zero_price_witness:
  "fst (plan_size_from_notional round_to_quarters
          ((fixed_exchange [] [] None)\<lparr>ex_last_price := (\<lambda>t i. Some 0)\<rparr>) world0 ''X'' 10 4)
     = fst (plan_size_from_notional round_to_quarters
          ((fixed_exchange [] [] None)\<lparr>ex_last_price := (\<lambda>t i. Some 1)\<rparr>) world0 ''X'' 10 4)
   \<and> (\<exists>plan. fst (plan_size_from_notional round_to_quarters
          ((fixed_exchange [] [] None)\<lparr>ex_last_price := (\<lambda>t i. Some 0)\<rparr>) world0 ''X'' 10 4)
            = Inr plan
          \<and> (contracts plan
                = max 1 (py_int (round_to_quarters
                                   (round_to_quarters (10 * round_to_quarters (real_of_int 4)) / 1)))
             \<or> contracts plan
                = max 1 (py_int (round_to_quarters
                                   (round_to_quarters (10 * round_to_quarters (real_of_int 4)) / 1)))
                  + 1))"
proof -
  have a: "ex_last_price ((fixed_exchange [] [] None)\<lparr>ex_last_price := (\<lambda>t i. Some 0)\<rparr>)
             (clock world0) ''X'' = Some 0"
    by simp
  have b: "ex_last_price ((fixed_exchange [] [] None)\<lparr>ex_last_price := (\<lambda>t i. Some 1)\<rparr>)
             (clock world0) ''X'' = Some 1"
    by simp
  have c: "(4::int) \<noteq> 0" by simp
  show ?thesis
    using plan_size_zero_price [OF a b, of round_to_quarters 10 4] c by blast
qed

section \<open>Properties of the order submitter\<close>

text \<open>
  Before it is written with six decimals, the take-profit price is on the right side of
  \<open>last\<close>: this is what the clamps of lines 260-265 achieve.
\<close>

lemma tp_price_long: "0 < p \<Longrightarrow> is_long_of pos_side side \<Longrightarrow> p < tp_price pos_side side p r"
  by (simp add: tp_price_def Let_def not_le)

lemma tp_price_short: "0 < p \<Longrightarrow> \<not> is_long_of pos_side side \<Longrightarrow> tp_price pos_side side p r < p"
  by (simp add: tp_price_def Let_def not_le)

lemma fmt6_tp_small:
  "fmt6 (tp_price ''net'' ''buy'' (12 / 1000000) 0.02) = 12 / 1000000"
proof -
  have t: "tp_price ''net'' ''buy'' (12 / 1000000) 0.02 = 1224 / 100000000"
    by (simp add: tp_price_def is_long_of_def Let_def)
  have f: "\<lfloor>(1224::real) / 100\<rfloor> = 12" by (simp add: floor_eq_iff)
  have "round_half_even (1224 / 100000000 * 1000000) = 12"
    using f by (simp add: round_half_even_def Let_def)
  then show ?thesis unfolding t fmt6_def by simp
qed

lemma fmt6_sl_small:
  "fmt6 (sl_price ''net'' ''buy'' (12 / 1000000) 0.01) = 12 / 1000000"
proof -
  have t: "sl_price ''net'' ''buy'' (12 / 1000000) 0.01 = 1188 / 100000000"
    by (simp add: sl_price_def is_long_of_def Let_def)
  have f: "\<lfloor>(1188::real) / 100\<rfloor> = 11" by (simp add: floor_eq_iff)
  have "round_half_even (1188 / 100000000 * 1000000) = 12"
    using f by (simp add: round_half_even_def Let_def)
  then show ?thesis unfolding t fmt6_def by simp
qed

lemma trade_place_order_eq:
  "trade_place_order okx w p =
     (ex_place_order okx (clock w) p,
      w\<lparr>clock := Suc (clock w), trace := trace w @ [Submit p]\<rparr>)"
  by (simp add: trade_place_order_def tick_def emit_def)

lemma submit_with_retries_accepted:
  assumes "ex_place_order okx (clock w) params = Some accepted"
  shows "submit_with_retries py_float okx w params inst_id sz lever tp_ratio last_px
           = (Some accepted, w\<lparr>clock := Suc (clock w), trace := trace w @ [Submit params]\<rparr>)"
proof -
  have n: "\<not> tp_rejected accepted"
    by (simp add: tp_rejected_def accepted_def first_item_def lower_def)
  have i: "first_item accepted = Some (Item ''0'' [] ''12345'')"
    by (simp add: first_item_def accepted_def)
  show ?thesis
    using assms n by (simp add: submit_with_retries_def trade_place_order_eq i)
qed

lemma place_order_accepted:
  assumes "fetch_last okx w inst_id tp_ratio sl_ratio = (Inr last_px, w1)"
    and "ex_place_order okx (clock w1)
           (build_params inst_id side td_mode sz ord_type pos_side tp_ratio sl_ratio
              tp_trigger_type sl_trigger_type last_px) = Some accepted"
  shows "place_order py_float okx w inst_id side td_mode sz ord_type pos_side tp_ratio sl_ratio
           tp_trigger_type sl_trigger_type lever =
           (Inr accepted,
            w1\<lparr>clock := Suc (clock w1),
               trace := trace w1 @ [Submit (build_params inst_id side td_mode sz ord_type
                  pos_side tp_ratio sl_ratio tp_trigger_type sl_trigger_type last_px)]\<rparr>)"
  using assms(1) submit_with_retries_accepted [OF assms(2), of py_float inst_id sz lever
          tp_ratio last_px]
  by (simp add: place_order_def caught_def)

text \<open>
  Claim C5 (the take-profit trigger computed by \<open>place_order\<close> is strictly above
  \<open>last\<close> for a long and strictly below it for a short). The code run in net mode on
  a buy with last price 0.000012 and \<open>tp_ratio\<close> 0.02: \<open>tp_px\<close> is 0.00001224, and the
  trigger attached to the submitted order, written with six decimals, is 0.000012, the
  last price itself.
\<close>

theorem tp_trigger_equals_last:
  "trace (snd (place_order float_of_digits
          ((fixed_exchange [] [] (Some accepted))\<lparr>ex_last_price := (\<lambda>t i. Some (12 / 1000000))\<rparr>)
          world0 ''PEPE-USDT-SWAP'' ''buy'' ''cross'' ''1'' ''market'' ''net''
          (Some 0.02) (Some 0.01) ''last'' ''last'' (Some 100)))
   = [Submit \<lparr>p_instId = ''PEPE-USDT-SWAP'', p_tdMode = ''cross'', p_side = ''buy'',
               p_ordType = ''market'', p_sz = ''1'', p_posSide = None,
               p_attachAlgoOrds = Some
                 \<lparr>tpTriggerPx = Some (12 / 1000000), tpTriggerPxType = Some ''last'',
                  tpOrdPx = Some ''-1'', slTriggerPx = Some (12 / 1000000),
                  slTriggerPxType = Some ''last'', slOrdPx = Some ''-1''\<rparr>\<rparr>]"
proof -
  let ?ex = "(fixed_exchange [] [] (Some accepted))\<lparr>ex_last_price := (\<lambda>t i. Some (12 / 1000000))\<rparr>"
  let ?params = "build_params ''PEPE-USDT-SWAP'' ''buy'' ''cross'' ''1'' ''market'' ''net''
                   (Some 0.02) (Some 0.01) ''last'' ''last'' (Some (12 / 1000000))"
  have fl: "fetch_last ?ex world0 ''PEPE-USDT-SWAP'' (Some 0.02) (Some 0.01)
              = (Inr (Some (12 / 1000000)), tick world0)"
    by (simp add: fetch_last_def get_last_price_def)
  have a: "ex_place_order ?ex (clock (tick world0)) ?params = Some accepted"
    by (simp add: fixed_exchange_def)
  have b: "?params =
       \<lparr>p_instId = ''PEPE-USDT-SWAP'', p_tdMode = ''cross'', p_side = ''buy'',
               p_ordType = ''market'', p_sz = ''1'', p_posSide = None,
               p_attachAlgoOrds = Some
                 \<lparr>tpTriggerPx = Some (12 / 1000000), tpTriggerPxType = Some ''last'',
                  tpOrdPx = Some ''-1'', slTriggerPx = Some (12 / 1000000),
                  slTriggerPxType = Some ''last'', slOrdPx = Some ''-1''\<rparr>\<rparr>"
    unfolding build_params_def using fmt6_tp_small fmt6_sl_small by simp
  have "trace (snd (place_order float_of_digits ?ex world0 ''PEPE-USDT-SWAP'' ''buy'' ''cross''
          ''1'' ''market'' ''net'' (Some 0.02) (Some 0.01) ''last'' ''last'' (Some 100)))
        = [Submit ?params]"
    unfolding place_order_accepted [OF fl a]
    by (simp add: tick_def world0_def)
  then show ?thesis unfolding b .
qed

lemma update_position_cap_frame [simp]:
  "trace (update_position_cap w i l c) = trace w"
  "clock (update_position_cap w i l c) = clock w"
  by (auto simp: update_position_cap_def split: option.splits)

lemma cap_retry_one_more:
  "cap_retry py_float okx w params inst_id sz lever s_msg = (r, w') \<Longrightarrow> one_more okx w r w'"
  by (auto simp: cap_retry_def one_more_def Let_def trade_place_order_eq
           split: option.splits if_splits)

lemma margin_retry_one_more:
  "margin_retry py_float okx w params sz = (r, w') \<Longrightarrow> one_more okx w r w'"
  by (auto simp: margin_retry_def one_more_def Let_def trade_place_order_eq
           split: option.splits if_splits)

lemma submit_with_retries_attempts:
  assumes "submit_with_retries py_float okx w params inst_id sz lever tp_ratio last_px = (r, w')"
  shows "(trace w' = trace w @ [Submit params] \<and> clock w' = Suc (clock w)
            \<and> r = ex_place_order okx (clock w) params)
       \<or> (\<exists>p. trace w' = trace w @ [Submit params, Submit p] \<and> clock w' = Suc (Suc (clock w))
              \<and> r = ex_place_order okx (Suc (clock w)) p)"
proof (cases "ex_place_order okx (clock w) params")
  case None
  then show ?thesis using assms
    by (auto simp: submit_with_retries_def trade_place_order_eq)
next
  case (Some result)
  let ?w1 = "w\<lparr>clock := Suc (clock w), trace := trace w @ [Submit params]\<rparr>"
  show ?thesis
  proof (cases "tp_rejected result \<and> tp_ratio \<noteq> None \<and> last_px \<noteq> None \<and> last_px \<noteq> Some 0")
    case True
    then show ?thesis using assms Some
      by (auto simp: submit_with_retries_def trade_place_order_eq)
  next
    case False
    let ?is_cap = "(case first_item result of None \<Rightarrow> False | Some it \<Rightarrow> sCode it = ''51004'')"
    let ?is_margin = "(case first_item result of None \<Rightarrow> False | Some it \<Rightarrow> sCode it = ''51008'')"
    obtain rc wc where c:
      "(if ?is_cap then cap_retry py_float okx ?w1 params inst_id sz lever
                          (sMsg (the (first_item result)))
        else (None, ?w1)) = (rc, wc)"
      by (meson surj_pair)
    have c1: "one_more okx ?w1 rc wc"
    proof (cases ?is_cap)
      case True
      then have "cap_retry py_float okx ?w1 params inst_id sz lever
                   (sMsg (the (first_item result))) = (rc, wc)"
        using c by simp
      then show ?thesis by (rule cap_retry_one_more)
    next
      case False
      then show ?thesis using c by (auto simp: one_more_def)
    qed
    obtain rm wm where m:
      "(if ?is_margin then margin_retry py_float okx wc params sz else (None, wc)) = (rm, wm)"
      by (meson surj_pair)
    have m1: "one_more okx wc rm wm"
    proof (cases ?is_margin)
      case True
      then have "margin_retry py_float okx wc params sz = (rm, wm)"
        using m by simp
      then show ?thesis by (rule margin_retry_one_more)
    next
      case False
      then show ?thesis using m by (auto simp: one_more_def)
    qed
    have e: "submit_with_retries py_float okx w params inst_id sz lever tp_ratio last_px =
        (case (if ?is_cap then cap_retry py_float okx ?w1 params inst_id sz lever
                                 (sMsg (the (first_item result)))
               else (None, ?w1)) of
           (Some r, w2) \<Rightarrow> (r, w2)
         | (None, w2) \<Rightarrow>
             (case (if ?is_margin then margin_retry py_float okx w2 params sz
                    else (None, w2)) of
                (Some r, w3) \<Rightarrow> (r, w3)
              | (None, w3) \<Rightarrow> (Some result, w3)))"
      by (simp only: submit_with_retries_def trade_place_order_eq Some prod.case option.case
            if_not_P [OF False])
    have r: "(r, w') = (case rc of Some x \<Rightarrow> (x, wc) | None \<Rightarrow>
                (case rm of Some x \<Rightarrow> (x, wm) | None \<Rightarrow> (Some result, wm)))"
    proof (cases rc)
      case None
      then show ?thesis
        using assms unfolding e c by (cases rm) (simp_all add: m)
    next
      case (Some x)
      then show ?thesis
        using assms unfolding e c by simp
    qed
    show ?thesis
    proof (cases rc)
      case (Some x)
      then show ?thesis using r c1 by (auto simp: one_more_def)
    next
      case None
      then show ?thesis using r c1 m1 \<open>ex_place_order okx (clock w) params = Some result\<close>
        by (cases rm) (auto simp: one_more_def)
    qed
  qed
qed


lemma submit_with_retries_tp:
  assumes "ex_place_order okx (clock w) params = Some result" "tp_rejected result"
    and "p \<noteq> 0"
  shows "submit_with_retries py_float okx w params inst_id sz lever (Some r) (Some p) =
           (ex_place_order okx (Suc (clock w)) (tp_retry_params params p r),
            w\<lparr>clock := Suc (Suc (clock w)),
              trace := trace w @ [Submit params, Submit (tp_retry_params params p r)]\<rparr>)"
  using assms by (simp add: submit_with_retries_def trade_place_order_eq)

text \<open>
  Claim C3. One call of \<open>place_order\<close> submits at most two orders (the original and
  at most one resubmission, whatever the rejection class), and when it submits two the
  call returns the answer to the second one (the reply with code \<open>-1\<close> if that
  submission raised) without entering another retry branch. In particular, when a TP
  trigger is attached, the price is non-zero and the exchange answers the first and the
  second submission with a TP-direction rejection, exactly two orders are submitted and
  the second rejection is returned.
\<close>

theorem place_order_single_shot:
  assumes "place_order py_float okx w inst_id side td_mode sz ord_type pos_side tp_ratio
             sl_ratio tp_trigger_type sl_trigger_type lever = (res, w')"
  shows "\<exists>attempts.
           trace w' = trace w @ map Submit attempts \<and> length attempts \<le> 2
         \<and> (length attempts = 2 \<longrightarrow>
              res = Inr (caught (ex_place_order okx (clock w' - 1) (attempts ! 1))))
         \<and> ((\<exists>r. tp_ratio = Some r)
              \<and> (\<exists>p. ex_last_price okx (clock w) inst_id = Some p \<and> p \<noteq> 0)
              \<and> (\<forall>q. \<exists>a. ex_place_order okx (clock w + 1) q = Some a \<and> tp_rejected a)
              \<and> (\<forall>q. \<exists>a. ex_place_order okx (clock w + 2) q = Some a \<and> tp_rejected a)
              \<longrightarrow> length attempts = 2 \<and> (\<exists>a. res = Inr a \<and> tp_rejected a))"
proof -
  let ?scen = "(\<exists>r. tp_ratio = Some r)
              \<and> (\<exists>p. ex_last_price okx (clock w) inst_id = Some p \<and> p \<noteq> 0)
              \<and> (\<forall>q. \<exists>a. ex_place_order okx (clock w + 1) q = Some a \<and> tp_rejected a)
              \<and> (\<forall>q. \<exists>a. ex_place_order okx (clock w + 2) q = Some a \<and> tp_rejected a)"
  have fin: "\<And>as. trace w' = trace w @ map Submit as \<Longrightarrow> length as \<le> 2
         \<Longrightarrow> (length as = 2 \<longrightarrow> res = Inr (caught (ex_place_order okx (clock w' - 1) (as ! 1))))
         \<Longrightarrow> (?scen \<longrightarrow> length as = 2 \<and> (\<exists>a. res = Inr a \<and> tp_rejected a))
         \<Longrightarrow> ?thesis"
    by (intro exI conjI) assumption+
  have fin2: "?thesis"
    if "\<not> ?scen" "trace w' = trace w @ map Submit as" "length as \<le> 2"
       "length as = 2 \<longrightarrow> res = Inr (caught (ex_place_order okx (clock w' - 1) (as ! 1)))"
    for as
  proof (rule fin [of as])
    show "?scen \<longrightarrow> length as = 2 \<and> (\<exists>a. res = Inr a \<and> tp_rejected a)"
      using that(1) by blast
  qed (use that in blast)+
  have ck: "clock (tick w) = Suc (clock w)" "trace (tick w) = trace w"
    by (simp_all add: tick_def)
  show ?thesis
  proof (cases "tp_ratio = None \<and> sl_ratio = None")
    case True
    let ?params = "build_params inst_id side td_mode sz ord_type pos_side tp_ratio sl_ratio
                     tp_trigger_type sl_trigger_type None"
    obtain r where s: "submit_with_retries py_float okx w ?params inst_id sz lever tp_ratio None
                         = (r, w')" and res: "res = Inr (caught r)"
      using assms True by (auto simp: place_order_def fetch_last_def split: prod.splits)
    have ns: "\<not> ?scen" using True by simp
    from submit_with_retries_attempts [OF s]
    show ?thesis
    proof
      assume a: "trace w' = trace w @ [Submit ?params] \<and> clock w' = Suc (clock w)
                \<and> r = ex_place_order okx (clock w) ?params"
      show ?thesis
        by (rule fin2 [of "[?params]", OF ns]) (use a in simp_all)
    next
      assume "\<exists>p. trace w' = trace w @ [Submit ?params, Submit p]
                \<and> clock w' = Suc (Suc (clock w)) \<and> r = ex_place_order okx (Suc (clock w)) p"
      then obtain p where a: "trace w' = trace w @ [Submit ?params, Submit p]"
        "clock w' = Suc (Suc (clock w))" "r = ex_place_order okx (Suc (clock w)) p"
        by blast
      show ?thesis
        by (rule fin2 [of "[?params, p]", OF ns]) (use a res in simp_all)
    qed
  next
    case False
    show ?thesis
    proof (cases "ex_last_price okx (clock w) inst_id")
      case None
      then have a: "trace w' = trace w" "res = Inl NetworkError"
        using assms False by (auto simp: place_order_def fetch_last_def get_last_price_def tick_def)
      have ns: "\<not> ?scen" using None by simp
      show ?thesis
        by (rule fin2 [of "[]", OF ns]) (use a in simp_all)
    next
      case (Some p)
      let ?params = "build_params inst_id side td_mode sz ord_type pos_side tp_ratio sl_ratio
                       tp_trigger_type sl_trigger_type (Some p)"
      obtain r where s: "submit_with_retries py_float okx (tick w) ?params inst_id sz lever
                           tp_ratio (Some p) = (r, w')" and res: "res = Inr (caught r)"
        using assms False Some
        by (auto simp: place_order_def fetch_last_def get_last_price_def split: prod.splits)
      show ?thesis
      proof (cases ?scen)
        case True
        then obtain tr where tr: "tp_ratio = Some tr" by blast
        have p0: "p \<noteq> 0" using True Some by auto
        from True have "\<exists>a. ex_place_order okx (clock w + 1) ?params = Some a \<and> tp_rejected a"
          by blast
        then obtain a where a: "ex_place_order okx (clock (tick w)) ?params = Some a"
          "tp_rejected a"
          using ck by auto
        from True have "\<exists>a. ex_place_order okx (clock w + 2)
                            (tp_retry_params ?params p tr) = Some a \<and> tp_rejected a"
          by blast
        then obtain b where b:
          "ex_place_order okx (Suc (clock (tick w))) (tp_retry_params ?params p tr) = Some b"
          "tp_rejected b"
          using ck by auto
        from submit_with_retries_tp [OF a p0, of py_float inst_id sz lever tr] s tr b
        have rb: "r = Some b" and w': "w' = (tick w)\<lparr>clock := Suc (Suc (clock (tick w))),
                trace := trace (tick w) @ [Submit ?params, Submit (tp_retry_params ?params p tr)]\<rparr>"
          by simp_all
        show ?thesis
          by (rule fin [of "[?params, tp_retry_params ?params p tr]"])
             (use w' res rb b ck in \<open>simp_all add: caught_def\<close>)
      next
        case nscen: False
        from submit_with_retries_attempts [OF s]
        show ?thesis
        proof
          assume a: "trace w' = trace (tick w) @ [Submit ?params]
                    \<and> clock w' = Suc (clock (tick w))
                    \<and> r = ex_place_order okx (clock (tick w)) ?params"
          show ?thesis
            by (rule fin2 [of "[?params]", OF nscen]) (use a ck in simp_all)
        next
          assume "\<exists>q. trace w' = trace (tick w) @ [Submit ?params, Submit q]
                    \<and> clock w' = Suc (Suc (clock (tick w)))
                    \<and> r = ex_place_order okx (Suc (clock (tick w))) q"
          then obtain q where a: "trace w' = trace (tick w) @ [Submit ?params, Submit q]"
            "clock w' = Suc (Suc (clock (tick w)))"
            "r = ex_place_order okx (Suc (clock (tick w))) q"
            by blast
          show ?thesis
            by (rule fin2 [of "[?params, q]", OF nscen]) (use a res ck in simp_all)
        qed
      qed
    qed
  qed
qed


lemma tp_rejected_tp_rejection: "tp_rejected tp_rejection"
  by (simp add: tp_rejected_def tp_rejection_def first_item_def)

theorem place_order_single_shot_witness:
  "\<exists>attempts.
     trace (snd (place_order float_of_digits (fixed_exchange [] [] (Some tp_rejection)) world0
              ''BTC-USDT-SWAP'' ''buy'' ''cross'' ''3'' ''market'' ''net'' (Some 0.02) (Some 0.01)
              ''last'' ''last'' (Some 100)))
       = trace world0 @ map Submit attempts
     \<and> length attempts = 2"
proof -
  let ?ex = "fixed_exchange [] [] (Some tp_rejection)"
  let ?run = "place_order float_of_digits ?ex world0
              ''BTC-USDT-SWAP'' ''buy'' ''cross'' ''3'' ''market'' ''net'' (Some 0.02) (Some 0.01)
              ''last'' ''last'' (Some 100)"
  have h: "?run = (fst ?run, snd ?run)" by simp
  have a: "\<exists>r::real. Some 0.02 = Some r" by blast
  have b: "\<exists>p. ex_last_price ?ex (clock world0) ''BTC-USDT-SWAP'' = Some p \<and> p \<noteq> 0"
    by (simp add: fixed_exchange_def)
  have c: "\<forall>q. \<exists>a. ex_place_order ?ex (clock world0 + 1) q = Some a \<and> tp_rejected a"
    by (simp add: fixed_exchange_def tp_rejected_tp_rejection)
  have d: "\<forall>q. \<exists>a. ex_place_order ?ex (clock world0 + 2) q = Some a \<and> tp_rejected a"
    by (simp add: fixed_exchange_def tp_rejected_tp_rejection)
  show ?thesis
    using place_order_single_shot [OF h] a b c d by blast
qed

lemma fetch_last_frame:
  "fetch_last okx w inst_id tp_ratio sl_ratio = (r, w1) \<Longrightarrow>
     cap_cache w1 = cap_cache w \<and> trace w1 = trace w"
  by (auto simp: fetch_last_def get_last_price_def tick_def split: if_splits option.splits)

lemma update_position_cap_value:
  "inst_id \<noteq> [] \<Longrightarrow> l \<noteq> 0 \<Longrightarrow> c \<noteq> 0 \<Longrightarrow>
     update_position_cap w inst_id (Some l) (Some c) = w\<lparr>cap_cache := (cap_cache w)((inst_id, l) \<mapsto> c)\<rparr>"
  by (simp add: update_position_cap_def)

text \<open>
  The size-cap branch in full: after a \<open>51004\<close> rejection that is not read as a
  TP-direction rejection, with a readable non-zero cap \<open>c\<close> and a requested size that
  reads as \<open>cs \<noteq> 0\<close>, the cache is written and the order is resubmitted with
  \<open>max 1 (min cs c)\<close> exactly when that differs from \<open>cs\<close>.
\<close>

lemma submit_with_retries_cap:
  assumes "ex_place_order okx (clock w) params = Some rej"
    and "first_item rej = Some it" and "sCode it = ''51004''"
    and "\<not> tp_rejected rej"
    and "parse_cap (sMsg it) = Some c" and "c \<noteq> 0"
    and "cur_sz_of py_float sz = Some cs" and "cs \<noteq> 0"
  shows "submit_with_retries py_float okx w params inst_id sz lever tp_ratio last_px =
           (let w1 = update_position_cap
                       (w\<lparr>clock := Suc (clock w), trace := trace w @ [Submit params]\<rparr>)
                       inst_id lever (Some c);
                new_sz = max 1 (min cs c)
            in if new_sz \<noteq> cs
               then (ex_place_order okx (Suc (clock w)) (params\<lparr>p_sz := py_str new_sz\<rparr>),
                     w1\<lparr>clock := Suc (Suc (clock w)),
                        trace := trace w @ [Submit params,
                                           Submit (params\<lparr>p_sz := py_str new_sz\<rparr>)]\<rparr>)
               else (Some rej, w1))"
  using assms
  by (simp add: submit_with_retries_def trade_place_order_eq cap_retry_def Let_def)


lemma place_order_cap:
  assumes "fetch_last okx w inst_id tp_ratio sl_ratio = (Inr last_px, w1)"
    and "ex_place_order okx (clock w1)
           (build_params inst_id side td_mode sz ord_type pos_side tp_ratio sl_ratio
              tp_trigger_type sl_trigger_type last_px) = Some rej"
    and "first_item rej = Some it" and "sCode it = ''51004''"
    and "\<not> tp_rejected rej"
    and "parse_cap (sMsg it) = Some c" and "c \<noteq> 0"
    and "cur_sz_of py_float sz = Some cs" and "cs \<noteq> 0"
  shows "place_order py_float okx w inst_id side td_mode sz ord_type pos_side tp_ratio sl_ratio
           tp_trigger_type sl_trigger_type lever =
           (let params = build_params inst_id side td_mode sz ord_type pos_side tp_ratio
                           sl_ratio tp_trigger_type sl_trigger_type last_px;
                wc = update_position_cap
                       (w1\<lparr>clock := Suc (clock w1), trace := trace w1 @ [Submit params]\<rparr>)
                       inst_id lever (Some c);
                new_sz = max 1 (min cs c)
            in if new_sz \<noteq> cs
               then (Inr (caught (ex_place_order okx (Suc (clock w1))
                                    (params\<lparr>p_sz := py_str new_sz\<rparr>))),
                     wc\<lparr>clock := Suc (Suc (clock w1)),
                        trace := trace w1 @ [Submit params,
                                            Submit (params\<lparr>p_sz := py_str new_sz\<rparr>)]\<rparr>)
               else (Inr rej, wc))"
  using submit_with_retries_cap [OF assms(2-9), of inst_id lever tp_ratio last_px] assms(1)
  by (simp add: place_order_def Let_def caught_def)

lemma min_list_le: "x \<in> set xs \<Longrightarrow> min_list xs \<le> (x::int)"
proof -
  assume x: "x \<in> set xs"
  then have "xs \<noteq> []" by auto
  then have "min_list xs = Min (set xs)" by (rule min_list_Min)
  then show ?thesis using x by simp
qed

lemma resolve_contracts_le_cap:
  assumes "\<not> truthy (ic_fixed_contracts inst)" and "truthy (Some cap)"
  shows "resolve_contracts inst cfg (Some cap) planned \<le> cap"
proof -
  let ?opts = "filter truthy
                 [ic_max_contracts inst, tc_max_contracts (cfg_trading cfg), Some cap]"
  have "Some cap \<in> set ?opts" unfolding set_filter using assms(2) by simp
  then have "the (Some cap) \<in> the ` set ?opts" by (rule imageI)
  then have m: "cap \<in> set (map the ?opts)" by simp
  then have ne: "map the ?opts \<noteq> []" by (metis empty_iff empty_set)
  have "min_list (map the ?opts) \<le> cap" using m by (rule min_list_le)
  then show ?thesis
    using assms(1) ne unfolding resolve_contracts_def Let_def by (simp del: filter.simps)
qed

lemma get_usdt_balance_cache:
  "get_usdt_balance okx w = (r, w1) \<Longrightarrow> cap_cache w1 = cap_cache w"
  by (auto simp: get_usdt_balance_def tick_def split: option.splits)

lemma plan_size_cache:
  "plan_size_from_notional rnd okx w i n l = (r, w1) \<Longrightarrow> cap_cache w1 = cap_cache w"
  by (auto simp: plan_size_from_notional_def get_last_price_def tick_def Let_def
      split: option.splits if_splits)

lemma size_position_le_cap:
  assumes "size_position rnd okx w cfg inst = (Inr (Some n), w')"
    and "cap_cache w (ic_inst_id inst, leverage_of inst cfg) = Some cap" and "cap \<noteq> 0"
    and "\<not> truthy (ic_fixed_contracts inst)"
  shows "n \<le> cap"
proof -
  have t: "truthy (Some cap)" using assms(3) by (simp add: truthy_def)
  obtain rb wb where b: "get_usdt_balance okx w = (rb, wb)" by (meson surj_pair)
  then obtain balance where rb: "rb = Inr balance" and pos: "\<not> balance \<le> 0"
    using assms(1) by (cases rb) (auto simp: size_position_def Let_def split: if_splits)
  let ?N = "min balance (case ic_base_notional_usdt inst of
               None \<Rightarrow> tc_base_notional_usdt (cfg_trading cfg)
             | Some b \<Rightarrow> if b = 0 then tc_base_notional_usdt (cfg_trading cfg) else b)"
  obtain rp wp where p: "plan_size_from_notional rnd okx wb (ic_inst_id inst) ?N
                           (leverage_of inst cfg) = (rp, wp)" by (meson surj_pair)
  then obtain sz_plan where rp: "rp = Inr sz_plan"
    using assms(1) b rb pos by (cases rp) (auto simp: size_position_def Let_def)
  have n: "n = resolve_contracts inst cfg
             (get_cached_position_cap wp (ic_inst_id inst) (Some (leverage_of inst cfg)))
             (contracts sz_plan)"
    using assms(1) b rb pos p rp by (auto simp: size_position_def Let_def)
  have "cap_cache wp = cap_cache w"
    using get_usdt_balance_cache [OF b] plan_size_cache [OF p] by simp
  then have "get_cached_position_cap wp (ic_inst_id inst) (Some (leverage_of inst cfg))
               = Some cap"
    using assms(2) by (simp add: get_cached_position_cap_def)
  then show ?thesis using n resolve_contracts_le_cap [OF assms(4) t] by simp
qed

lemma int_of_grouped_1500: "int_of_grouped ''1,500'' = Some 1500"
  by (simp add: int_of_grouped_def digit_val_def)

text \<open>
  Claim C4, as amended. Suppose the first submission of \<open>place_order\<close> is answered by
  a size-cap rejection (\<open>sCode\<close> 51004) in whose message the first run of digits and
  commas directly followed by \<open>(contracts)\<close> is \<open>1,500\<close>, the reply is not also
  read as a TP-direction rejection, the instrument id is not empty, the leverage \<open>l\<close>
  passed is not zero, and the requested size reads as a non-zero integer. Then after the
  call the cache maps \<open>(inst_id, l)\<close> to 1500; the order is resubmitted once, with size
  \<open>max 1 (min requested 1500)\<close>, exactly when that size differs from the requested
  one; and a sizing for the same pair with \<open>fixed_contracts\<close> unset, made on the
  resulting cache, proposes at most 1500 contracts.
\<close>

theorem cap_rejection_cached:
  assumes "fetch_last okx w inst_id tp_ratio sl_ratio = (Inr last_px, w1)"
    and "ex_place_order okx (clock w1)
           (build_params inst_id side td_mode sz ord_type pos_side tp_ratio sl_ratio
              tp_trigger_type sl_trigger_type last_px) = Some rej"
    and "first_item rej = Some it" and "sCode it = ''51004''"
    and "first_contracts_match (sMsg it) = Some ''1,500''"
    and "\<not> tp_rejected rej"
    and "inst_id \<noteq> []" and "l \<noteq> 0"
    and "py_float sz = Some v" and "py_int v \<noteq> 0"
    and "place_order py_float okx w inst_id side td_mode sz ord_type pos_side tp_ratio sl_ratio
           tp_trigger_type sl_trigger_type (Some l) = (res, w')"
  shows "cap_cache w' (inst_id, l) = Some 1500
       \<and> trace w' = trace w
           @ Submit (build_params inst_id side td_mode sz ord_type pos_side tp_ratio sl_ratio
                       tp_trigger_type sl_trigger_type last_px)
           # (if max 1 (min (py_int v) 1500) \<noteq> py_int v
              then [Submit ((build_params inst_id side td_mode sz ord_type pos_side tp_ratio
                               sl_ratio tp_trigger_type sl_trigger_type last_px)
                            \<lparr>p_sz := py_str (max 1 (min (py_int v) 1500))\<rparr>)]
              else [])
       \<and> (\<forall>rnd okx' cfg inst n w''.
             ic_inst_id inst = inst_id \<and> leverage_of inst cfg = l
             \<and> \<not> truthy (ic_fixed_contracts inst)
             \<and> size_position rnd okx' w' cfg inst = (Inr (Some n), w'')
             \<longrightarrow> n \<le> 1500)"
proof -
  have pc: "parse_cap (sMsg it) = Some 1500"
    using assms(5) by (simp add: parse_cap_def int_of_grouped_1500)
  have cs: "cur_sz_of py_float sz = Some (py_int v)"
    using assms(9) by (simp add: cur_sz_of_def)
  have fr: "trace w1 = trace w" using fetch_last_frame [OF assms(1)] by simp
  have c0: "(1500::int) \<noteq> 0" by simp
  note po = place_order_cap [OF assms(1-4) assms(6) pc c0 cs assms(10), where lever = "Some l"]
  have cache: "cap_cache w' (inst_id, l) = Some 1500"
    using po assms(11) assms(7,8)
    by (auto simp: Let_def update_position_cap_value split: if_splits)
  have tr: "trace w' = trace w
           @ Submit (build_params inst_id side td_mode sz ord_type pos_side tp_ratio sl_ratio
                       tp_trigger_type sl_trigger_type last_px)
           # (if max 1 (min (py_int v) 1500) \<noteq> py_int v
              then [Submit ((build_params inst_id side td_mode sz ord_type pos_side tp_ratio
                               sl_ratio tp_trigger_type sl_trigger_type last_px)
                            \<lparr>p_sz := py_str (max 1 (min (py_int v) 1500))\<rparr>)]
              else [])"
    using po assms(11) fr
    by (auto simp: Let_def split: if_splits)
  have sz: "n \<le> 1500"
    if "ic_inst_id inst = inst_id" "leverage_of inst cfg = l"
       "\<not> truthy (ic_fixed_contracts inst)"
       "size_position rnd okx' w' cfg inst = (Inr (Some n), w'')" for rnd okx' cfg inst n w''
    using size_position_le_cap [OF that(4) _ _ that(3), of 1500] cache that(1,2) by simp
  show ?thesis using cache tr sz by blast
qed


lemma fetch_last_fixed:
  "fetch_last (fixed_exchange ps cs r) world0 i (Some a) (Some b)
     = (Inr (Some 30000), tick world0)"
  by (simp add: fetch_last_def get_last_price_def fixed_exchange_def)

lemma first_item_cap_rejection:
  "first_item (cap_rejection msg) = Some (Item ''51004'' msg [])"
  by (simp add: first_item_def cap_rejection_def)

lemma float_of_digits_30000: "float_of_digits ''30000'' = Some 30000"
  by (simp add: float_of_digits_def is_digit_def digit_val_def)

lemma float_of_digits_2000: "float_of_digits ''2000'' = Some 2000"
  by (simp add: float_of_digits_def is_digit_def digit_val_def)

text \<open>
  Claim C4 as stated fails: a message that contains \<open>1,500(contracts)\<close> as part of
  \<open>21,500(contracts)\<close> caches 21500, since the whole run of digits and commas before
  \<open>(contracts)\<close> is read.
\<close>

theorem cap_rejection_counterexample:
  "contains ''1,500(contracts)'' ''Max position 21,500(contracts).''
   \<and> cap_cache (snd (place_order float_of_digits
          (fixed_exchange [] [] (Some (cap_rejection ''Max position 21,500(contracts).'')))
          world0 ''BTC-USDT-SWAP'' ''buy'' ''cross'' ''30000'' ''market'' ''net''
          (Some 0.02) (Some 0.01) ''last'' ''last'' (Some 100)))
        (''BTC-USDT-SWAP'', 100) = Some 21500"
proof -
  let ?msg = "''Max position 21,500(contracts).''"
  let ?ex = "fixed_exchange [] [] (Some (cap_rejection ?msg))"
  have c: "contains ''1,500(contracts)'' ?msg" by simp
  have m: "first_contracts_match ?msg = Some ''21,500''"
    by (simp add: first_contracts_match_def cap_char_def is_digit_def)
  have g: "int_of_grouped ''21,500'' = Some 21500"
    by (simp add: int_of_grouped_def digit_val_def)
  have pc: "parse_cap (sMsg (Item ''51004'' ?msg [])) = Some 21500"
    by (simp add: parse_cap_def m g)
  have nt: "\<not> tp_rejected (cap_rejection ?msg)"
    by (simp add: tp_rejected_def cap_rejection_def first_item_def lower_def lower_char_def)
  have cs: "cur_sz_of float_of_digits ''30000'' = Some 30000"
    by (simp add: cur_sz_of_def float_of_digits_30000 py_int_def)
  have a: "ex_place_order ?ex (clock (tick world0))
             (build_params ''BTC-USDT-SWAP'' ''buy'' ''cross'' ''30000'' ''market'' ''net''
                (Some 0.02) (Some 0.01) ''last'' ''last'' (Some 30000))
           = Some (cap_rejection ?msg)"
    by (simp add: fixed_exchange_def)
  have s: "sCode (Item ''51004'' ?msg []) = ''51004''" by simp
  have n1: "(21500::int) \<noteq> 0" and n2: "(30000::int) \<noteq> 0" by simp_all
  note po = place_order_cap [OF fetch_last_fixed a first_item_cap_rejection s nt pc n1 cs n2,
              where lever = "Some 100"]
  have "cap_cache (snd (place_order float_of_digits ?ex
          world0 ''BTC-USDT-SWAP'' ''buy'' ''cross'' ''30000'' ''market'' ''net''
          (Some 0.02) (Some 0.01) ''last'' ''last'' (Some 100)))
        (''BTC-USDT-SWAP'', 100) = Some 21500"
    unfolding po by (simp add: Let_def update_position_cap_value)
  with c show ?thesis by blast
qed

theorem cap_rejection_cached_witness:
  "cap_cache (snd (place_order float_of_digits
          (fixed_exchange [] [] (Some (cap_rejection ''Max position 1,500(contracts).'')))
          world0 ''BTC-USDT-SWAP'' ''buy'' ''cross'' ''2000'' ''market'' ''net''
          (Some 0.02) (Some 0.01) ''last'' ''last'' (Some 100)))
        (''BTC-USDT-SWAP'', 100) = Some 1500"
proof -
  let ?msg = "''Max position 1,500(contracts).''"
  let ?ex = "fixed_exchange [] [] (Some (cap_rejection ?msg))"
  let ?run = "place_order float_of_digits ?ex
          world0 ''BTC-USDT-SWAP'' ''buy'' ''cross'' ''2000'' ''market'' ''net''
          (Some 0.02) (Some 0.01) ''last'' ''last'' (Some 100)"
  have m: "first_contracts_match (sMsg (Item ''51004'' ?msg [])) = Some ''1,500''"
    by (simp add: first_contracts_match_def cap_char_def is_digit_def)
  have nt: "\<not> tp_rejected (cap_rejection ?msg)"
    by (simp add: tp_rejected_def cap_rejection_def first_item_def lower_def lower_char_def)
  have a: "ex_place_order ?ex (clock (tick world0))
             (build_params ''BTC-USDT-SWAP'' ''buy'' ''cross'' ''2000'' ''market'' ''net''
                (Some 0.02) (Some 0.01) ''last'' ''last'' (Some 30000))
           = Some (cap_rejection ?msg)"
    by (simp add: fixed_exchange_def)
  have s: "sCode (Item ''51004'' ?msg []) = ''51004''" by simp
  have i: "''BTC-USDT-SWAP'' \<noteq> []" by simp
  have l: "(100::int) \<noteq> 0" by simp
  have v: "py_int 2000 \<noteq> 0" by (simp add: py_int_def)
  have r: "?run = (fst ?run, snd ?run)" by simp
  show ?thesis
    using cap_rejection_cached
      [OF fetch_last_fixed a first_item_cap_rejection s m nt i l float_of_digits_2000 v r]
    by blast
qed

section \<open>The direction oracle on concrete inputs\<close>

lemma float_of_digits_100: "float_of_digits ''100'' = Some 100"
  by (simp add: float_of_digits_def is_digit_def digit_val_def)
lemma float_of_digits_101: "float_of_digits ''101'' = Some 101"
  by (simp add: float_of_digits_def is_digit_def digit_val_def)
lemma float_of_digits_102: "float_of_digits ''102'' = Some 102"
  by (simp add: float_of_digits_def is_digit_def digit_val_def)

lemma closes_of_falling:
  "closes_of float_of_digits falling_candles = Inr [100, 101, 102]"
  by (simp add: falling_candles_def float_of_digits_100 float_of_digits_101
        float_of_digits_102)

text \<open>
  What the momentum rule computes: \<open>long\<close> exactly when the last close of the window
  is above the first one. On rows ordered newest first the first close is the most
  recent one.
\<close>

lemma momentum_long_iff:
  assumes "closes_of py_float (take n candles) = Inr closes"
  shows "(momentum py_float n candles = ''long'') = (2 \<le> length closes \<and> hd closes < last closes)"
  using assms by (simp add: momentum_def)

text \<open>
  Claim C2 (the heuristic answers \<open>long\<close> exactly when the most recent close is above
  the close some bars earlier). The code run on the newest-first closes 100, 101, 102:
  the most recent close 100 is below the close two bars earlier, 102, and the answer is
  \<open>long\<close>.
\<close>

theorem heuristic_long_on_falling_prices:
  "HeuristicAIClient_decide_direction float_of_digits ''BTC-USDT-SWAP'' falling_candles
     = ''long''"
proof -
  have "take 30 falling_candles = falling_candles"
    by (simp add: falling_candles_def)
  then show ?thesis
    by (simp add: HeuristicAIClient_decide_direction_def momentum_def closes_of_falling)
qed

lemma openai_transport_fault:
  "post (clock w) = TransportFault \<Longrightarrow>
     OpenAICompatClient_decide_direction py_float post w inst_id candles
       = (Inl HTTPError, tick w)"
  by (simp add: OpenAICompatClient_decide_direction_def)


lemma trade_cycle_ai_fault:
  "\<exists>w'. trade_cycle float_of_digits exact (fixed_exchange [] falling_candles (Some accepted))
          (OpenAICompatClient (\<lambda>t. TransportFault)) (default_cfg True) 0 world0
        = Some (Uncaught HTTPError, 1, w')"
  by (simp add: trade_cycle_def attempt_open_def open_position_def decide_direction_def
        OpenAICompatClient_decide_direction_def on_exception_def
        get_positions_def get_candles_def get_usdt_balance_def
        fixed_exchange_def world0_def default_cfg_def btc_def falling_candles_def
        tick_def emit_def Let_def)

text \<open>
  Claim C1 (\<open>decide_direction\<close> of the OpenAI-compatible client never raises, so the
  trading loop is never ended by a fault of the decision service). The code run with a
  request that fails: \<open>decide_direction\<close> raises the HTTP error, and \<open>trade_loop\<close>,
  which catches \<open>NetworkError\<close> only, ends with it in its first cycle.
\<close>

theorem openai_fault_ends_trade_loop:
  "fst (decide_direction float_of_digits (OpenAICompatClient (\<lambda>t. TransportFault)) world0
          ''BTC-USDT-SWAP'' falling_candles) = Inl HTTPError
   \<and> map_option fst
        (trade_loop float_of_digits exact (fixed_exchange [] falling_candles (Some accepted))
           (OpenAICompatClient (\<lambda>t. TransportFault)) (default_cfg True) world0)
       = Some (Some HTTPError)"
proof -
  have a: "fst (decide_direction float_of_digits (OpenAICompatClient (\<lambda>t. TransportFault))
                  world0 ''BTC-USDT-SWAP'' falling_candles) = Inl HTTPError"
    by (simp add: decide_direction_def openai_transport_fault)
  obtain w' where c:
    "trade_cycle float_of_digits exact (fixed_exchange [] falling_candles (Some accepted))
       (OpenAICompatClient (\<lambda>t. TransportFault)) (default_cfg True) 0 world0
     = Some (Uncaught HTTPError, 1, w')"
    using trade_cycle_ai_fault by blast
  have i: "cfg_instruments (default_cfg True) \<noteq> []"
    by (simp add: default_cfg_def)
  have "trade_loop float_of_digits exact (fixed_exchange [] falling_candles (Some accepted))
           (OpenAICompatClient (\<lambda>t. TransportFault)) (default_cfg True) world0
        = Some (Some HTTPError, 1, w')"
    using i c by (simp add: trade_loop_def trade_loop_from.simps)
  with a show ?thesis by simp
qed

section \<open>Properties of the trading loop\<close>

lemma any_open_nonzero:
  assumes "\<exists>p \<in> set positions. \<exists>s v. pos p = Some s \<and> py_float s = Some v \<and> v \<noteq> 0"
  shows "any_open py_float positions = Inr True
         \<or> any_open py_float positions = Inl ValueError"
  using assms
  by (induction positions) (auto split: option.splits)

lemma any_open_parsed:
  assumes "\<forall>p \<in> set positions. \<forall>s. pos p = Some s \<longrightarrow> py_float s \<noteq> None"
  shows "any_open py_float positions \<noteq> Inl ValueError"
  using assms
  by (induction positions) (auto split: option.splits)

lemma trade_cycle_position_open:
  assumes "ex_positions okx (clock w) = Some positions"
    and "any_open py_float positions = Inr True"
  shows "trade_cycle py_float rnd okx ai cfg idx w =
           Some (NextCycle, idx,
                 w\<lparr>clock := Suc (clock w),
                   trace := trace w @ [Sleep (tc_poll_interval_sec (cfg_trading cfg))]\<rparr>)"
  using assms
  by (simp add: trade_cycle_def get_positions_def sleep_def emit_def tick_def)

lemma trade_cycle_position_unreadable:
  assumes "ex_positions okx (clock w) = Some positions"
    and "any_open py_float positions = Inl ValueError"
  shows "trade_cycle py_float rnd okx ai cfg idx w =
           Some (Uncaught ValueError, idx, w\<lparr>clock := Suc (clock w)\<rparr>)"
  using assms
  by (simp add: trade_cycle_def get_positions_def on_exception_def tick_def)

text \<open>
  Claim C7. If the position query of a cycle returns an entry whose \<open>pos\<close> reads as a
  non-zero number, the cycle ends at the entry guard with the cursor unchanged, and the
  only event it can add to the trace is the sleep of one poll interval: \<open>open_position\<close>
  is not called and no order is submitted. When every \<open>pos\<close> field is readable the
  cycle does exactly this: it sleeps one poll interval and goes on to the next cycle,
  which queries the positions again. (An unreadable \<open>pos\<close> ahead of the open one
  raises instead; no order is submitted then either.)
\<close>

theorem open_position_blocks_cycle:
  assumes "ex_positions okx (clock w) = Some positions"
    and "\<exists>p \<in> set positions. \<exists>s v. pos p = Some s \<and> py_float s = Some v \<and> v \<noteq> 0"
  shows "\<exists>r w' new. trade_cycle py_float rnd okx ai cfg idx w = Some (r, idx, w')
           \<and> trace w' = trace w @ new
           \<and> (\<forall>e \<in> set new. e = Sleep (tc_poll_interval_sec (cfg_trading cfg)))
           \<and> ((\<forall>p \<in> set positions. \<forall>s. pos p = Some s \<longrightarrow> py_float s \<noteq> None)
                \<longrightarrow> r = NextCycle
                    \<and> new = [Sleep (tc_poll_interval_sec (cfg_trading cfg))])"
proof -
  let ?poll = "tc_poll_interval_sec (cfg_trading cfg)"
  from any_open_nonzero [OF assms(2)]
  show ?thesis
  proof
    assume t: "any_open py_float positions = Inr True"
    show ?thesis
      unfolding trade_cycle_position_open [OF assms(1) t]
      by (rule exI [of _ NextCycle],
          rule exI [of _ "w\<lparr>clock := Suc (clock w), trace := trace w @ [Sleep ?poll]\<rparr>"],
          rule exI [of _ "[Sleep ?poll]"]) simp
  next
    assume e: "any_open py_float positions = Inl ValueError"
    then have np: "\<not> (\<forall>p \<in> set positions. \<forall>s. pos p = Some s \<longrightarrow> py_float s \<noteq> None)"
      using any_open_parsed by blast
    show ?thesis
      unfolding trade_cycle_position_unreadable [OF assms(1) e]
      by (rule exI [of _ "Uncaught ValueError"], rule exI [of _ "w\<lparr>clock := Suc (clock w)\<rparr>"],
          rule exI [of _ "[]"]) (use np in simp)
  qed
qed

lemma float_of_digits_3: "float_of_digits ''3'' = Some 3"
  by (simp add: float_of_digits_def is_digit_def digit_val_def)

theorem open_position_blocks_cycle_witness:
  "\<exists>w'. trade_cycle float_of_digits exact (fixed_exchange [open_btc] falling_candles (Some accepted))
             HeuristicAIClient (default_cfg False) 0 world0 = Some (NextCycle, 0, w')
         \<and> trace w' = trace world0 @ [Sleep 30]"
proof -
  let ?ex = "fixed_exchange [open_btc] falling_candles (Some accepted)"
  have a: "ex_positions ?ex (clock world0) = Some [open_btc]"
    by (simp add: fixed_exchange_def)
  have b: "\<exists>p \<in> set [open_btc]. \<exists>s v. pos p = Some s \<and> float_of_digits s = Some v \<and> v \<noteq> 0"
    by (simp add: open_btc_def float_of_digits_3)
  have c: "\<forall>p \<in> set [open_btc]. \<forall>s. pos p = Some s \<longrightarrow> float_of_digits s \<noteq> None"
    by (simp add: open_btc_def float_of_digits_3)
  have d: "tc_poll_interval_sec (cfg_trading (default_cfg False)) = 30"
    by (simp add: default_cfg_def)
  show ?thesis
    using open_position_blocks_cycle [OF a b, of exact HeuristicAIClient "default_cfg False" 0] c d
    by auto
qed











end
